theory Spec2Isabelle
  imports Complex_Main
begin

section \<open>Slug normalisation\<close>

text \<open>
  The expression
  \<^verbatim>\<open>name.toLowerCase().replace(/[^a-z0-9]+/g, '-').replace(/^-+|-+$/g, '')\<close>
  occurs in \<^verbatim>\<open>createProduct\<close>, \<^verbatim>\<open>updateProduct\<close>, both \<^verbatim>\<open>parseJsonField\<close>
  helpers and the \<^verbatim>\<open>pre('save')\<close> hook of the brand model. A string is a list of
  code units below 256; on these \<^verbatim>\<open>toLowerCase\<close> moves exactly the upper-case
  letters of ASCII and Latin-1 up by 32.
\<close>

definition is_alnum :: "char \<Rightarrow> bool" where
  "is_alnum c =
     (let n = (of_char c :: nat) in (97 \<le> n \<and> n \<le> 122) \<or> (48 \<le> n \<and> n \<le> 57))"

definition is_upper :: "char \<Rightarrow> bool" where
  "is_upper c =
     (let n = (of_char c :: nat) in
        (65 \<le> n \<and> n \<le> 90) \<or> (192 \<le> n \<and> n \<le> 222 \<and> n \<noteq> 215))"

text \<open>Adding 32 to an upper-case code unit sets the bit of weight 32, which is clear there.\<close>

fun add32 :: "char \<Rightarrow> char" where
  "add32 (Char b0 b1 b2 b3 b4 b5 b6 b7) = Char b0 b1 b2 b3 b4 True b6 b7"

definition lower_char :: "char \<Rightarrow> char" where
  "lower_char c = (if is_upper c then add32 c else c)"

definition toLowerCase :: "string \<Rightarrow> string" where
  "toLowerCase s = map lower_char s"

text \<open>\<^verbatim>\<open>.replace(/[^a-z0-9]+/g, '-')\<close>: every maximal run becomes one hyphen.\<close>

function replace_runs :: "string \<Rightarrow> string" where
  "replace_runs [] = []"
| "replace_runs (c # cs) =
     (if is_alnum c then c # replace_runs cs
      else CHR ''-'' # replace_runs (dropWhile (\<lambda>d. \<not> is_alnum d) cs))"
  by pat_completeness auto
termination
  by (relation "measure length") (auto simp: length_dropWhile_le less_Suc_eq_le)

definition is_hyphen :: "char \<Rightarrow> bool" where
  "is_hyphen c = (c = CHR ''-'')"

definition strip_trailing :: "string \<Rightarrow> string" where
  "strip_trailing s = rev (dropWhile is_hyphen (rev s))"

text \<open>\<^verbatim>\<open>.replace(/^-+|-+$/g, '')\<close>: the leading run and the trailing run of hyphens go.\<close>

definition strip_hyphens :: "string \<Rightarrow> string" where
  "strip_hyphens s = strip_trailing (dropWhile is_hyphen s)"

definition slugify :: "string \<Rightarrow> string" where
  "slugify s = strip_hyphens (replace_runs (toLowerCase s))"

text \<open>
  A recogniser for \<^verbatim>\<open>^[a-z0-9]+(-[a-z0-9]+)*$\<close>, written from the pattern: the flag
  says whether the word being read already has a character, so that the input may end,
  or a hyphen may follow, only when it is set.
\<close>

fun slug_word :: "bool \<Rightarrow> string \<Rightarrow> bool" where
  "slug_word started [] = started"
| "slug_word started (c # cs) =
     (if is_alnum c then slug_word True cs
      else is_hyphen c \<and> started \<and> slug_word False cs)"

definition matches_slug_pattern :: "string \<Rightarrow> bool" where
  "matches_slug_pattern s = slug_word False s"

text \<open>What \<^const>\<open>replace_runs\<close> leaves: a hyphen is last or followed by \<^verbatim>\<open>[a-z0-9]\<close>.\<close>

fun runs_collapsed :: "string \<Rightarrow> bool" where
  "runs_collapsed [] = True"
| "runs_collapsed (c # cs) =
     ((is_alnum c \<or> (is_hyphen c \<and> (cs = [] \<or> is_alnum (hd cs)))) \<and> runs_collapsed cs)"

section \<open>Documents, collections and the runtime\<close>

text \<open>
  An object id is written as the string \<^verbatim>\<open>toString()\<close> gives for it. A request names
  a document by a value of its own, which Mongoose casts to an object id before it
  compares it with a stored one: the store operations below take object ids, and the
  handlers cast what the request supplies. A collection is the list of its documents;
  \<^verbatim>\<open>findById\<close> and \<^verbatim>\<open>findOne\<close> return the first document that matches. The product,
  category and colour schemas are not among the sources: the documents carry the fields
  the controllers read and write.
\<close>

type_synonym oid = string

record size_entry =
  sz_size :: string
  sz_quantity :: int

datatype alt_text = Alt string | DefaultAlt nat nat

record image =
  img_url :: string
  img_public_id :: string
  img_alt :: alt_text
  img_isPrimary :: bool

record variant =
  v_id :: oid
  v_color :: "oid option"
  v_price :: "rat option"
  v_sizes :: "size_entry list"
  v_images :: "image list"

record product =
  p_id :: oid
  p_name :: string
  p_slug :: string
  p_category :: oid
  p_brand :: oid
  p_base_price :: rat
  p_description :: string
  p_variants :: "variant list"
  p_isActive :: bool
  p_tags :: "string list"
  p_videoUrl :: string
  p_isFeatured :: bool
  p_isSoldOut :: bool
  p_isVisible :: bool
  p_specifications :: "(string \<times> string) list"
  p_collections :: "string list"
  p_discount :: rat

record category =
  cat_id :: oid
  cat_slug :: string
  cat_isActive :: bool
  cat_productCount :: int

record color =
  col_id :: oid
  col_productCount :: int

text \<open>
  The state a request runs against: the four collections and the \<^verbatim>\<open>Uploads\<close>
  directory, that is whether the directory exists and its files, each with a flag
  telling whether \<^verbatim>\<open>fs.unlinkSync\<close> can remove it (it throws on a directory and on
  a file it has no permission for).
\<close>

record world =
  products :: "product list"
  categories :: "category list"
  colors :: "color list"
  brands :: "oid list"
  uploads_dir :: bool
  uploads :: "(string \<times> bool) list"

text \<open>
  A value of the request where its shape matters. Express hands over a parameter of
  the query string in \<^verbatim>\<open>req.query\<close> as a string, as an array when the parameter is
  repeated or indexed, or as an object when it is written with keys
  (\<^verbatim>\<open>size[a]=b\<close>).
\<close>

datatype jsval = Str string | Arr "jsval list" | Obj "(string \<times> jsval) list"

text \<open>
  Library functions the controllers call, taken as parameters: the cast of a value to
  an object id (\<open>None\<close> when Mongoose throws a \<^verbatim>\<open>CastError\<close>, or
  \<^verbatim>\<open>new mongoose.Types.ObjectId\<close> an error), \<^verbatim>\<open>parseFloat\<close> and
  \<^verbatim>\<open>parseInt(_, 10)\<close> (\<open>None\<close> is \<^verbatim>\<open>NaN\<close>), the cast of a string to a schema
  number, the cast to a schema string of an array or an object (\<open>None\<close> when it
  fails), and what \<^verbatim>\<open>toString()\<close> returns on the plain object that
  \<^verbatim>\<open>toObject()\<close> leaves at a populated colour path and on a populated colour
  document.
\<close>

record lib =
  castObjectId :: "jsval \<Rightarrow> oid option"
  castString :: "jsval \<Rightarrow> string option"
  parseFloat :: "string \<Rightarrow> rat option"
  parseInt :: "string \<Rightarrow> int option"
  toNumber :: "string \<Rightarrow> rat option"
  objToString :: "oid \<Rightarrow> string"
  docToString :: "oid \<Rightarrow> string"

text \<open>
  \<^verbatim>\<open>mongoose.isValidObjectId(v)\<close> is documented to be true exactly when Mongoose can
  cast \<open>v\<close> to an object id.
\<close>

definition isValidObjectId :: "lib \<Rightarrow> jsval \<Rightarrow> bool" where
  "isValidObjectId L v = (castObjectId L v \<noteq> None)"

text \<open>
  The entries of \<^verbatim>\<open>STATUS\<close> the controllers use. Modelled from the spec: the table
  \<^verbatim>\<open>config/constant/status/status.js\<close> is not among the sources; the spec surfaces
  client errors as 4xx, not-found as 404, conflict as 409 and server errors as 5xx, and
  the numbers below are the HTTP codes of the entries' names.
\<close>

datatype status =
  OK | CREATED | BAD_REQUEST | NOT_FOUND | CONFLICT | UNPROCESSABLE_ENTITY | SERVER_ERROR

fun status_code :: "status \<Rightarrow> nat" where
  "status_code OK = 200"
| "status_code CREATED = 201"
| "status_code BAD_REQUEST = 400"
| "status_code NOT_FOUND = 404"
| "status_code CONFLICT = 409"
| "status_code UNPROCESSABLE_ENTITY = 422"
| "status_code SERVER_ERROR = 500"

definition is_client_error :: "status \<Rightarrow> bool" where
  "is_client_error st = (400 \<le> status_code st \<and> status_code st < 500)"

text \<open>
  A handler either sends a response (status and message) or lets an exception escape to
  \<^verbatim>\<open>asyncHandler\<close>.
\<close>

datatype outcome = Responded status string | Thrown string

text \<open>
  The store calls made inside a transaction. A set of them is a parameter of each
  mutating handler: the calls in the set throw (network, validation or write errors).
\<close>

datatype store_op =
  OpSaveProduct | OpCategoryDec | OpCategoryInc | OpColorsInc | OpColorsDec
  | OpProductUpdate | OpProductDelete | OpCommit

subsection \<open>Store operations\<close>

text \<open>
  The cast of a string of the request where a store call takes an id, and of each
  element of an \<^verbatim>\<open>$in\<close> list; \<open>e\<close> is what the handler does with the \<^verbatim>\<open>CastError\<close>.
\<close>

definition cast_id :: "lib \<Rightarrow> string \<Rightarrow> 'e \<Rightarrow> 'e + oid" where
  "cast_id L s e = (case castObjectId L (Str s) of None \<Rightarrow> Inl e | Some k \<Rightarrow> Inr k)"

definition cast_ids :: "lib \<Rightarrow> string list \<Rightarrow> 'e \<Rightarrow> 'e + oid list" where
  "cast_ids L ss e =
     (if list_all (\<lambda>s. isValidObjectId L (Str s)) ss
      then Inr (map (\<lambda>s. the (castObjectId L (Str s))) ss) else Inl e)"

text \<open>The document with a given object id.\<close>

definition find_category :: "oid \<Rightarrow> category list \<Rightarrow> category option" where
  "find_category k cs = find (\<lambda>c. cat_id c = k) cs"

definition find_color :: "oid \<Rightarrow> color list \<Rightarrow> color option" where
  "find_color k cs = find (\<lambda>c. col_id c = k) cs"

definition find_product :: "oid \<Rightarrow> product list \<Rightarrow> product option" where
  "find_product k ps = find (\<lambda>p. p_id p = k) ps"

text \<open>\<^verbatim>\<open>Category.findByIdAndUpdate(k, { $inc: { productCount: d } })\<close>, \<open>k\<close> an object id.\<close>

fun category_inc :: "oid \<Rightarrow> int \<Rightarrow> category list \<Rightarrow> category list" where
  "category_inc k d [] = []"
| "category_inc k d (c # cs) =
     (if cat_id c = k then c\<lparr>cat_productCount := cat_productCount c + d\<rparr> # cs
      else c # category_inc k d cs)"

text \<open>
  \<^verbatim>\<open>Color.updateMany({ _id: { $in: ks } }, { $inc: { productCount: d } })\<close>, \<open>ks\<close>
  object ids.
\<close>

definition colors_inc :: "oid list \<Rightarrow> int \<Rightarrow> color list \<Rightarrow> color list" where
  "colors_inc ks d cs =
     map (\<lambda>c. if col_id c \<in> set ks then c\<lparr>col_productCount := col_productCount c + d\<rparr> else c) cs"

text \<open>\<^verbatim>\<open>Color.find({ _id: { $in: ks } })\<close>, \<open>ks\<close> object ids.\<close>

definition colors_in :: "oid list \<Rightarrow> color list \<Rightarrow> color list" where
  "colors_in ks cs = filter (\<lambda>c. col_id c \<in> set ks) cs"

text \<open>The counter of a category and of a colour, when the document exists.\<close>

definition category_count :: "oid \<Rightarrow> category list \<Rightarrow> int option" where
  "category_count k cs = map_option cat_productCount (find_category k cs)"

definition color_count :: "oid \<Rightarrow> color list \<Rightarrow> int option" where
  "color_count k cs = map_option col_productCount (find_color k cs)"

text \<open>\<^verbatim>\<open>Product.deleteOne({ _id: k })\<close>\<close>

fun delete_product :: "oid \<Rightarrow> product list \<Rightarrow> product list" where
  "delete_product k [] = []"
| "delete_product k (p # ps) = (if p_id p = k then ps else p # delete_product k ps)"

text \<open>\<^verbatim>\<open>Product.findByIdAndUpdate(k, { $set: ... })\<close>, the new document given.\<close>

fun replace_product :: "oid \<Rightarrow> product \<Rightarrow> product list \<Rightarrow> product list" where
  "replace_product k q [] = []"
| "replace_product k q (p # ps) = (if p_id p = k then q # ps else p # replace_product k q ps)"

text \<open>\<^verbatim>\<open>[...new Set(xs)]\<close> keeps the first occurrence of each element.\<close>

definition uniq :: "'a list \<Rightarrow> 'a list" where
  "uniq xs = rev (remdups (rev xs))"

definition truthy :: "string option \<Rightarrow> bool" where
  "truthy v = (case v of None \<Rightarrow> False | Some s \<Rightarrow> s \<noteq> [])"

text \<open>\<^verbatim>\<open>field ?? stored\<close>\<close>

definition nullish_or :: "'a option \<Rightarrow> 'a \<Rightarrow> 'a" where
  "nullish_or field stored = (case field of None \<Rightarrow> stored | Some x \<Rightarrow> x)"

subsection \<open>Early returns and exceptions\<close>

text \<open>
  A handler is a sequence of steps, each of which either goes on with a value or stops
  the handler with a response or an exception. \<open>and_then\<close> runs the rest after a step
  that went on; \<open>reject_if\<close> is a guard (\<^verbatim>\<open>if (c) return ...\<close> or a call that
  throws when \<open>c\<close> holds).
\<close>

definition and_then :: "'e + 'a \<Rightarrow> ('a \<Rightarrow> 'e + 'b) \<Rightarrow> 'e + 'b" where
  "and_then m f = (case m of Inl e \<Rightarrow> Inl e | Inr x \<Rightarrow> f x)"

definition reject_if :: "bool \<Rightarrow> 'e \<Rightarrow> 'e + unit" where
  "reject_if c e = (if c then Inl e else Inr ())"

subsection \<open>Transactions\<close>

text \<open>
  While a transaction is open the store has two views of the collections: the one every
  other connection sees, and the one of the session. A write that carries
  \<^verbatim>\<open>{ session }\<close> changes the second only; a write without it, and a change to the
  files, is made at once. \<^verbatim>\<open>commitTransaction\<close> makes the view of the session the
  state, \<^verbatim>\<open>abortTransaction\<close> drops it.
\<close>

record txn =
  outside :: world
  inside :: world

definition startTransaction :: "world \<Rightarrow> txn" where
  "startTransaction w = \<lparr>outside = w, inside = w\<rparr>"

definition perform :: "bool \<Rightarrow> (world \<Rightarrow> world) \<Rightarrow> txn \<Rightarrow> txn" where
  "perform with_session f t =
     (if with_session then t\<lparr>inside := f (inside t)\<rparr>
      else \<lparr>outside = f (outside t), inside = f (inside t)\<rparr>)"

definition commitTransaction :: "txn \<Rightarrow> world" where
  "commitTransaction t = inside t"

definition abortTransaction :: "txn \<Rightarrow> world" where
  "abortTransaction t = outside t"

text \<open>
  A statement inside \<^verbatim>\<open>try\<close> either goes on with the transaction or throws; what
  is thrown comes with the transaction as it is then, for the \<^verbatim>\<open>catch\<close> to abort.
  \<open>store_call\<close> is a write that throws when \<open>fails\<close> holds and \<open>throw_if\<close> a statement
  that writes nothing.
\<close>

type_synonym step = "(string \<times> txn) + txn"

definition store_call :: "bool \<Rightarrow> string \<Rightarrow> bool \<Rightarrow> (world \<Rightarrow> world) \<Rightarrow> txn \<Rightarrow> step" where
  "store_call fails name with_session f t =
     (if fails then Inl (name, t) else Inr (perform with_session f t))"

definition throw_if :: "bool \<Rightarrow> string \<Rightarrow> txn \<Rightarrow> step" where
  "throw_if c name t = (if c then Inl (name, t) else Inr t)"

text \<open>
  What a statement leaves outside the session, seen through \<open>view\<close>: \<open>x\<close>, whether it
  goes on or throws.
\<close>

definition leaves :: "(world \<Rightarrow> 'a) \<Rightarrow> 'a \<Rightarrow> step \<Rightarrow> bool" where
  "leaves view x r =
     (case r of Inl (msg, t) \<Rightarrow> view (outside t) = x | Inr t \<Rightarrow> view (outside t) = x)"


section \<open>Deleting a product\<close>

text \<open>
  \<^verbatim>\<open>path.basename\<close> on a POSIX path: trailing slashes are ignored and the part after
  the last remaining slash is returned.
\<close>

definition basename :: "string \<Rightarrow> string" where
  "basename p =
     (let q = dropWhile (\<lambda>c. c = CHR ''/'') (rev p)
      in rev (takeWhile (\<lambda>c. c \<noteq> CHR ''/'') q))"

text \<open>
  The two nested \<^verbatim>\<open>forEach\<close> loops over the images of every variant:
  \<^verbatim>\<open>if (fs.existsSync(imagePath)) fs.unlinkSync(imagePath)\<close>, where \<^verbatim>\<open>imagePath\<close>
  is \<^verbatim>\<open>path.join(uploadsDir, path.basename(img.url))\<close>. That path is the directory
  itself when the name is empty or \<^verbatim>\<open>.\<close>, and its parent, which holds the sources
  and so exists, when the name is \<^verbatim>\<open>..\<close>; \<^verbatim>\<open>unlinkSync\<close> throws on a directory.
  The result is the files after the loop, or the files at the moment \<^verbatim>\<open>unlinkSync\<close>
  threw.
\<close>

fun unlink_images :: "bool \<Rightarrow> image list \<Rightarrow> (string \<times> bool) list \<Rightarrow> (string \<times> bool) list + (string \<times> bool) list" where
  "unlink_images dir [] fs = Inr fs"
| "unlink_images dir (img # imgs) fs =
     (let name = basename (img_url img) in
      if name = ''..'' then Inl fs
      else if name = [] \<or> name = ''.'' then (if dir then Inl fs else unlink_images dir imgs fs)
      else case (if dir then map_of fs name else None) of
        None \<Rightarrow> unlink_images dir imgs fs
      | Some removable \<Rightarrow>
          if removable then unlink_images dir imgs (filter (\<lambda>e. fst e \<noteq> name) fs)
          else Inl fs)"

text \<open>The image loop as the first statement of \<^verbatim>\<open>try\<close>; a file removed stays removed.\<close>

definition remove_images :: "product \<Rightarrow> txn \<Rightarrow> step" where
  "remove_images product t =
     (case unlink_images (uploads_dir (outside t)) (concat (map v_images (p_variants product)))
             (uploads (outside t)) of
        Inl fs \<Rightarrow> Inl (''unlinkSync'', perform False (\<lambda>w. w\<lparr>uploads := fs\<rparr>) t)
      | Inr fs \<Rightarrow> Inr (perform False (\<lambda>w. w\<lparr>uploads := fs\<rparr>) t))"

definition variant_color_ids :: "variant list \<Rightarrow> oid list" where
  "variant_color_ids vs = filter (\<lambda>c. c \<noteq> []) (List.map_filter v_color vs)"

text \<open>
  After the colour counters \<^verbatim>\<open>deleteProduct\<close> has the statement \<^verbatim>\<open>Image\<close> on a
  line of its own, before \<^verbatim>\<open>await Product.deleteOne(...)\<close>. The module neither
  imports nor declares that name and Node.js has no such global, so evaluating it
  throws a \<^verbatim>\<open>ReferenceError\<close>.
\<close>

definition evaluate_Image :: "string + unit" where
  "evaluate_Image = Inl ''ReferenceError: Image is not defined''"

text \<open>
  The atomic unit of \<^verbatim>\<open>deleteProduct\<close>: the statements of \<^verbatim>\<open>try\<close> after the image
  loop, up to \<^verbatim>\<open>commitTransaction\<close>. The product is loaded without \<^verbatim>\<open>populate\<close>,
  so \<^verbatim>\<open>product.category\<close> is an object id and \<^verbatim>\<open>v.color?._id?.toString()\<close> is the
  string of the colour's id (Mongoose gives an object id an \<^verbatim>\<open>_id\<close> getter that
  returns the id itself), which \<^verbatim>\<open>updateMany\<close> casts back; \<^verbatim>\<open>deleteOne\<close> casts
  \<^verbatim>\<open>req.params.id\<close>. All three writes carry the session. The outcome of the
  statement \<^verbatim>\<open>Image\<close> is a parameter, so that the statements around it can be
  examined on their own; the handler passes \<^const>\<open>evaluate_Image\<close>.
\<close>

definition delete_unit :: "lib \<Rightarrow> string + unit \<Rightarrow> store_op set \<Rightarrow> string \<Rightarrow> product \<Rightarrow> txn \<Rightarrow> step" where
  "delete_unit L image_statement faults pid product t =
     (let colorIds = uniq (variant_color_ids (p_variants product))
      in
      and_then (store_call (OpCategoryDec \<in> faults) ''Category.findByIdAndUpdate'' True
                  (\<lambda>w. w\<lparr>categories := category_inc (p_category product) (- 1) (categories w)\<rparr>)
                  t) (\<lambda>t1.
      and_then (if colorIds \<noteq> []
                then and_then (cast_ids L colorIds (''CastError'', t1)) (\<lambda>ks.
                     store_call (OpColorsDec \<in> faults) ''Color.updateMany'' True
                       (\<lambda>w. w\<lparr>colors := colors_inc ks (- 1) (colors w)\<rparr>) t1)
                else Inr t1) (\<lambda>t2.
      and_then (case image_statement of Inl msg \<Rightarrow> Inl (msg, t2) | Inr _ \<Rightarrow> Inr t2) (\<lambda>t3.
      and_then (cast_id L pid (''CastError'', t3)) (\<lambda>k.
      and_then (store_call (OpProductDelete \<in> faults) ''Product.deleteOne'' True
                  (\<lambda>w. w\<lparr>products := delete_product k (products w)\<rparr>) t3) (\<lambda>t4.
      throw_if (OpCommit \<in> faults) ''commitTransaction'' t4))))))"

text \<open>
  \<^verbatim>\<open>deleteProduct\<close>. \<^verbatim>\<open>findById\<close> is called before \<^verbatim>\<open>try\<close>, so its
  \<^verbatim>\<open>CastError\<close> escapes the handler. Everything from the image loop on is inside
  \<^verbatim>\<open>try\<close>, after \<^verbatim>\<open>startTransaction\<close>; the \<^verbatim>\<open>catch\<close> aborts the transaction
  and rethrows.
\<close>

definition deleteProduct :: "lib \<Rightarrow> store_op set \<Rightarrow> string \<Rightarrow> world \<Rightarrow> outcome \<times> world" where
  "deleteProduct L faults pid w =
     (case castObjectId L (Str pid) of
        None \<Rightarrow> (Thrown ''CastError'', w)
      | Some k \<Rightarrow>
          (case find_product k (products w) of
             None \<Rightarrow> (Responded NOT_FOUND ''PRODUCT_MESSAGES.PRODUCT_NOT_FOUND'', w)
           | Some product \<Rightarrow>
               (case and_then (remove_images product (startTransaction w))
                       (delete_unit L evaluate_Image faults pid product) of
                  Inl (msg, t) \<Rightarrow> (Thrown msg, abortTransaction t)
                | Inr t \<Rightarrow>
                    (Responded OK ''PRODUCT_MESSAGES.PRODUCT_DELETED'', commitTransaction t))))"

section \<open>Request payloads\<close>

text \<open>
  A body field that the handlers use as text is absent or a string. The \<^verbatim>\<open>color\<close> of
  an incoming variant is absent, a string, or an object carrying an \<^verbatim>\<open>_id\<close>; the
  fourth shape, a populated colour document, only occurs when \<^verbatim>\<open>updateProduct\<close> falls
  back to \<^verbatim>\<open>product.variants\<close>.
\<close>

datatype color_in = CAbsent | CStr string | CObj oid | CDoc oid

record variant_in =
  in_id :: "string option"
  in_color :: color_in
  in_price :: "rat option"
  in_sizes :: "size_entry list option"
  in_images :: "image list option"

record upload =
  up_path :: string
  up_filename :: string

text \<open>
  \<^verbatim>\<open>req.files\<close> maps the field \<^verbatim>\<open>variants[i][image]\<close> to its uploaded files; the key
  is the index \<open>i\<close>. \<^verbatim>\<open>req.body['variants[i][imageAlt_j]']\<close> is \<open>imageAlt i j\<close>.
\<close>

type_synonym files = "(nat \<times> upload list) list"

definition new_images :: "(nat \<Rightarrow> nat \<Rightarrow> string option) \<Rightarrow> nat \<Rightarrow> upload list \<Rightarrow> image list" where
  "new_images alts index ups =
     map (\<lambda>(i, file).
            \<lparr>img_url = up_path file, img_public_id = up_filename file,
             img_alt = (if truthy (alts index i) then Alt (the (alts index i))
                        else DefaultAlt index (i + 1)),
             img_isPrimary = (i = 0)\<rparr>)
         (enumerate 0 ups)"

text \<open>The id a colour value is cast to, where it has one.\<close>

fun color_in_id :: "color_in \<Rightarrow> string option" where
  "color_in_id CAbsent = None"
| "color_in_id (CStr s) = Some s"
| "color_in_id (CObj c) = Some c"
| "color_in_id (CDoc c) = Some c"

text \<open>JavaScript truthiness of a colour value: an object is truthy, a string when non-empty.\<close>

fun color_truthy :: "color_in \<Rightarrow> bool" where
  "color_truthy CAbsent = False"
| "color_truthy (CStr s) = (s \<noteq> [])"
| "color_truthy (CObj c) = True"
| "color_truthy (CDoc c) = True"

fun color_is_object :: "color_in \<Rightarrow> bool" where
  "color_is_object (CObj c) = True"
| "color_is_object (CDoc c) = True"
| "color_is_object _ = False"

section \<open>Creating a product\<close>

record create_req =
  c_name :: "string option"
  c_category :: "string option"
  c_brand :: "string option"
  c_base_price :: "string option"
  c_description :: "string option"
  c_variants :: "variant_in list option"
  c_isActive :: "bool option"
  c_tags :: "string list option"
  c_videoUrl :: "string option"
  c_isFeatured :: "bool option"
  c_isSoldOut :: "bool option"
  c_isVisible :: "bool option"
  c_specifications :: "(string \<times> string) list option"
  c_collections :: "string list option"
  c_discount :: "rat option"
  c_files :: "files option"
  c_imageAlt :: "nat \<Rightarrow> nat \<Rightarrow> string option"

text \<open>
  \<^verbatim>\<open>parseJsonField\<close> of \<^verbatim>\<open>createProduct\<close> on a field that is absent or an array (a
  string that JSON-decodes to an array gives the same list): \<open>[]\<close> when absent, the
  array otherwise, with every tag and collection label normalised.
\<close>

definition create_parse_variants :: "variant_in list option \<Rightarrow> variant_in list" where
  "create_parse_variants field = (case field of None \<Rightarrow> [] | Some vs \<Rightarrow> vs)"

definition create_parse_labels :: "string list option \<Rightarrow> string list" where
  "create_parse_labels field = (case field of None \<Rightarrow> [] | Some xs \<Rightarrow> map slugify xs)"

text \<open>\<^verbatim>\<open>variants.map((v) => v.color).filter(Boolean)\<close>, as the ids they are cast to.\<close>

definition create_color_ids :: "variant_in list \<Rightarrow> string list" where
  "create_color_ids vs =
     List.map_filter (\<lambda>v. if color_truthy (in_color v) then color_in_id (in_color v) else None) vs"

text \<open>The block \<^verbatim>\<open>if (req.files && variants.length > 0)\<close>.\<close>

definition create_attach :: "(nat \<Rightarrow> nat \<Rightarrow> string option) \<Rightarrow> files option \<Rightarrow> variant_in list \<Rightarrow> variant_in list" where
  "create_attach alts fs vs =
     (case fs of
        None \<Rightarrow> vs
      | Some files \<Rightarrow>
          map (\<lambda>(index, v).
                 case map_of files index of
                   Some ups \<Rightarrow> v\<lparr>in_images := Some (new_images alts index ups)\<rparr>
                 | None \<Rightarrow> v\<lparr>in_images := Some []\<rparr>)
              (enumerate 0 vs))"

definition has_images_in :: "variant_in list \<Rightarrow> bool" where
  "has_images_in vs = list_ex (\<lambda>v. case in_images v of None \<Rightarrow> False | Some imgs \<Rightarrow> imgs \<noteq> []) vs"

text \<open>
  The variant subdocument Mongoose stores for an incoming variant: a supplied
  \<^verbatim>\<open>_id\<close> is kept, otherwise a fresh one is generated, and the colour is cast.
\<close>

definition store_variant_in :: "lib \<Rightarrow> oid \<Rightarrow> variant_in \<Rightarrow> variant" where
  "store_variant_in L fresh v =
     \<lparr>v_id = (if truthy (in_id v) then the (in_id v) else fresh),
      v_color = (if color_truthy (in_color v)
                 then castObjectId L (Str (the (color_in_id (in_color v)))) else None),
      v_price = in_price v,
      v_sizes = (case in_sizes v of None \<Rightarrow> [] | Some ss \<Rightarrow> ss),
      v_images = (case in_images v of None \<Rightarrow> [] | Some imgs \<Rightarrow> imgs)\<rparr>"

text \<open>
  The checks of \<^verbatim>\<open>createProduct\<close> up to the slug lookup, in the order of the
  source; the result is the slug. \<^verbatim>\<open>findById\<close> and \<^verbatim>\<open>find\<close> cast what they are
  given and throw a \<^verbatim>\<open>CastError\<close> on a value that is no object id; outside
  \<^verbatim>\<open>try\<close> it escapes the handler.
\<close>

definition create_checks :: "lib \<Rightarrow> create_req \<Rightarrow> world \<Rightarrow> outcome + string" where
  "create_checks L rq w =
     (let variants = create_parse_variants (c_variants rq);
          category = the (c_category rq);
          brand = the (c_brand rq);
          colorIds = create_color_ids variants;
          slug = slugify (the (c_name rq))
      in
      and_then (reject_if (\<not> truthy (c_name rq) \<or> \<not> truthy (c_category rq)
                            \<or> \<not> truthy (c_brand rq) \<or> \<not> truthy (c_base_price rq)
                            \<or> variants = [])
                  (Responded UNPROCESSABLE_ENTITY
                     (if variants = [] then ''At least one variant is required''
                      else ''PRODUCT_MESSAGES.VALIDATION_ERROR''))) (\<lambda>_.
      and_then (cast_id L category (Thrown ''CastError'')) (\<lambda>categoryId.
      and_then (reject_if (find_category categoryId (categories w) = None)
                  (Responded BAD_REQUEST ''PRODUCT_MESSAGES.INVALID_CATEGORY_ID'')) (\<lambda>_.
      and_then (cast_id L brand (Thrown ''CastError'')) (\<lambda>brandId.
      and_then (reject_if (brandId \<notin> set (brands w))
                  (Responded BAD_REQUEST ''Invalid brand ID'')) (\<lambda>_.
      and_then (cast_ids L colorIds (Thrown ''CastError'')) (\<lambda>ks.
      and_then (reject_if (length (colors_in ks (colors w)) \<noteq> length colorIds)
                  (Responded BAD_REQUEST ''One or more colors are invalid'')) (\<lambda>_.
      and_then (reject_if (find (\<lambda>p. p_slug p = slug) (products w) \<noteq> None)
                  (Responded CONFLICT ''PRODUCT_MESSAGES.PRODUCT_EXISTS'')) (\<lambda>_.
      Inr slug)))))))))"


text \<open>The uploads: the images are attached, and one variant must have got some.\<close>

definition create_images :: "create_req \<Rightarrow> outcome + variant_in list" where
  "create_images rq =
     (let variants = create_attach (c_imageAlt rq) (c_files rq)
                       (create_parse_variants (c_variants rq))
      in and_then (reject_if (\<not> has_images_in variants
                               \<and> (case c_files rq of None \<Rightarrow> False | Some fs \<Rightarrow> fs \<noteq> []))
                     (Responded BAD_REQUEST ''Uploaded images must be assigned to a variant'')) (\<lambda>_.
         Inr variants))"

text \<open>
  \<^verbatim>\<open>new Product({ ... })\<close>, as the document \<^verbatim>\<open>save\<close> stores. \<open>pid\<close> is the id
  generated for the document and \<open>fresh i\<close> the id generated for its \<open>i\<close>-th variant;
  the category, the brand and the colours are cast to object ids.
\<close>

definition create_document :: "lib \<Rightarrow> oid \<Rightarrow> (nat \<Rightarrow> oid) \<Rightarrow> create_req \<Rightarrow> string \<Rightarrow> variant_in list \<Rightarrow> product" where
  "create_document L pid fresh rq slug variants =
     \<lparr>p_id = pid, p_name = the (c_name rq), p_slug = slug,
      p_category = the (castObjectId L (Str (the (c_category rq)))),
      p_brand = the (castObjectId L (Str (the (c_brand rq)))),
      p_base_price = the (toNumber L (the (c_base_price rq))),
      p_description = nullish_or (c_description rq) [],
      p_variants = map (\<lambda>(i, v). store_variant_in L (fresh i) v) (enumerate 0 variants),
      p_isActive = nullish_or (c_isActive rq) True,
      p_tags = create_parse_labels (c_tags rq),
      p_videoUrl = nullish_or (c_videoUrl rq) [],
      p_isFeatured = nullish_or (c_isFeatured rq) False,
      p_isSoldOut = nullish_or (c_isSoldOut rq) False,
      p_isVisible = nullish_or (c_isVisible rq) True,
      p_specifications = nullish_or (c_specifications rq) [],
      p_collections = create_parse_labels (c_collections rq),
      p_discount = nullish_or (c_discount rq) 0\<rparr>"

text \<open>
  The atomic unit of \<^verbatim>\<open>createProduct\<close>: the inner \<^verbatim>\<open>try\<close>, from
  \<^verbatim>\<open>startTransaction\<close> to \<^verbatim>\<open>commitTransaction\<close>. Each of the three writes carries
  \<^verbatim>\<open>{ session }\<close>. A base price that is no number, and a category, brand or colour
  that is no object id, fail schema validation in \<^verbatim>\<open>save\<close>.
\<close>

definition create_txn :: "lib \<Rightarrow> store_op set \<Rightarrow> oid \<Rightarrow> (nat \<Rightarrow> oid) \<Rightarrow> create_req \<Rightarrow> string \<Rightarrow> variant_in list \<Rightarrow> world \<Rightarrow> step" where
  "create_txn L faults pid fresh rq slug variants w =
     (let colorIds = uniq (create_color_ids variants);
          t = startTransaction w
      in
      and_then (store_call (OpSaveProduct \<in> faults \<or> toNumber L (the (c_base_price rq)) = None
                             \<or> \<not> isValidObjectId L (Str (the (c_category rq)))
                             \<or> \<not> isValidObjectId L (Str (the (c_brand rq)))
                             \<or> \<not> list_all (\<lambda>c. isValidObjectId L (Str c)) colorIds)
                  ''product.save'' True
                  (\<lambda>w. w\<lparr>products := products w
                                      @ [create_document L pid fresh rq slug variants]\<rparr>) t) (\<lambda>t1.
      and_then (cast_id L (the (c_category rq)) (''CastError'', t1)) (\<lambda>categoryId.
      and_then (store_call (OpCategoryInc \<in> faults) ''Category.findByIdAndUpdate'' True
                  (\<lambda>w. w\<lparr>categories := category_inc categoryId 1 (categories w)\<rparr>) t1) (\<lambda>t2.
      and_then (if colorIds \<noteq> []
                then and_then (cast_ids L colorIds (''CastError'', t2)) (\<lambda>ks.
                     store_call (OpColorsInc \<in> faults) ''Color.updateMany'' True
                       (\<lambda>w. w\<lparr>colors := colors_inc ks 1 (colors w)\<rparr>) t2)
                else Inr t2) (\<lambda>t3.
      throw_if (OpCommit \<in> faults) ''commitTransaction'' t3)))))"

text \<open>
  \<^verbatim>\<open>createProduct\<close>: the checks, the uploads, then the atomic unit. A response sent
  before the atomic unit leaves the state as it was; the \<^verbatim>\<open>catch\<close> of the atomic
  unit aborts the transaction and rethrows, and the outer \<^verbatim>\<open>catch\<close> answers 500.
\<close>

definition createProduct :: "lib \<Rightarrow> store_op set \<Rightarrow> oid \<Rightarrow> (nat \<Rightarrow> oid) \<Rightarrow> create_req \<Rightarrow> world \<Rightarrow> outcome \<times> world" where
  "createProduct L faults pid fresh rq w =
     (case and_then (create_checks L rq w) (\<lambda>slug.
           and_then (create_images rq) (\<lambda>variants. Inr (slug, variants))) of
        Inl rejection \<Rightarrow> (rejection, w)
      | Inr (slug, variants) \<Rightarrow>
          (case create_txn L faults pid fresh rq slug variants w of
             Inl (msg, t) \<Rightarrow>
               (Responded SERVER_ERROR (''PRODUCT_MESSAGES.PRODUCT_CREATION_FAILED: '' @ msg),
                abortTransaction t)
           | Inr t \<Rightarrow>
               (Responded CREATED ''PRODUCT_MESSAGES.PRODUCT_CREATED'', commitTransaction t)))"

section \<open>Updating a product\<close>

text \<open>
  A flag of the body is compared with \<^verbatim>\<open>===\<close> against a boolean and against a
  string, so both shapes are kept. The \<^verbatim>\<open>variants\<close> field is absent, an array of
  objects, a string that JSON-decodes to the given list of objects, or a string that
  does not decode.
\<close>

datatype flag_in = FUndefined | FBool bool | FStr string

datatype variants_in =
  VUndefined | VArray "variant_in list" | VJson "variant_in list" | VBadJson string

record update_req =
  u_name :: "string option"
  u_category :: "string option"
  u_brand :: "string option"
  u_base_price :: "string option"
  u_description :: "string option"
  u_variants :: variants_in
  u_isActive :: flag_in
  u_tags :: "string list option"
  u_videoUrl :: "string option"
  u_isFeatured :: flag_in
  u_isSoldOut :: flag_in
  u_isVisible :: flag_in
  u_specifications :: "(string \<times> string) list option"
  u_collections :: "string list option"
  u_discount :: "string option"
  u_files :: "files option"
  u_imageAlt :: "nat \<Rightarrow> nat \<Rightarrow> string option"

text \<open>
  The colour of a variant while the handler works on it: \<^verbatim>\<open>null\<close>, a string of the
  request, the plain object \<^verbatim>\<open>toObject()\<close> made of a populated colour, or the
  populated colour document itself.
\<close>

datatype color_val = ColorNull | ColorId string | ColorObj oid | ColorDoc oid

record mvariant =
  mv_id :: oid
  mv_color :: color_val
  mv_price :: "rat option"
  mv_sizes :: "size_entry list"
  mv_images :: "image list"

text \<open>\<^verbatim>\<open>populate('variants.color')\<close> puts the colour document, or \<^verbatim>\<open>null\<close> if there is none.\<close>

definition populated_color :: "color list \<Rightarrow> variant \<Rightarrow> oid option" where
  "populated_color cols v =
     (case v_color v of
        None \<Rightarrow> None
      | Some c \<Rightarrow> (if find_color c cols = None then None else Some c))"

text \<open>\<^verbatim>\<open>product.variants.map((v) => v.toObject())\<close>\<close>

definition to_object :: "color list \<Rightarrow> variant \<Rightarrow> mvariant" where
  "to_object cols v =
     \<lparr>mv_id = v_id v,
      mv_color = (case populated_color cols v of None \<Rightarrow> ColorNull | Some c \<Rightarrow> ColorObj c),
      mv_price = v_price v, mv_sizes = v_sizes v, mv_images = v_images v\<rparr>"

text \<open>A variant of \<^verbatim>\<open>product.variants\<close> read as an incoming variant.\<close>

definition as_incoming :: "color list \<Rightarrow> variant \<Rightarrow> variant_in" where
  "as_incoming cols v =
     \<lparr>in_id = Some (v_id v),
      in_color = (case populated_color cols v of None \<Rightarrow> CAbsent | Some c \<Rightarrow> CDoc c),
      in_price = v_price v, in_sizes = Some (v_sizes v), in_images = Some (v_images v)\<rparr>"

text \<open>The loop \<^verbatim>\<open>for (const variant of variants)\<close>: the first 400 it returns, if any.\<close>

fun validate_variants :: "lib \<Rightarrow> variant_in list \<Rightarrow> outcome option" where
  "validate_variants L [] = None"
| "validate_variants L (v # vs) =
     (if color_truthy (in_color v) \<and> color_is_object (in_color v)
      then Some (Responded BAD_REQUEST ''Variant color must be a string ID, not an object'')
      else if \<not> truthy (in_id v) \<and> \<not> color_truthy (in_color v)
      then Some (Responded BAD_REQUEST
             ''Each variant must have either an _id (for updates) or a color (for new variants)'')
      else if color_truthy (in_color v) \<and> \<not> isValidObjectId L (Str (the (color_in_id (in_color v))))
      then Some (Responded BAD_REQUEST
             (''Invalid color ID in variant: '' @ the (color_in_id (in_color v))))
      else validate_variants L vs)"

text \<open>\<^verbatim>\<open>color: v.color?._id?.toString() || v.color\<close>\<close>

definition parse_variant :: "variant_in \<Rightarrow> variant_in" where
  "parse_variant v =
     v\<lparr>in_color := (case in_color v of
                       CObj c \<Rightarrow> (if c \<noteq> [] then CStr c else CObj c)
                     | CDoc c \<Rightarrow> (if c \<noteq> [] then CStr c else CDoc c)
                     | other \<Rightarrow> other)\<rparr>"

text \<open>
  \<^verbatim>\<open>variants ? parseJsonField(variants, 'variants') : product.variants\<close>; \<open>Inl\<close> is the
  message of the \<^verbatim>\<open>Error\<close> thrown on a string that does not decode.
\<close>

definition update_parse_variants :: "color list \<Rightarrow> product \<Rightarrow> variants_in \<Rightarrow> string + variant_in list" where
  "update_parse_variants cols product field =
     (case field of
        VUndefined \<Rightarrow> Inr (map (as_incoming cols) (p_variants product))
      | VArray vs \<Rightarrow> Inr (map parse_variant vs)
      | VJson vs \<Rightarrow> Inr (map parse_variant vs)
      | VBadJson raw \<Rightarrow> Inl (''Invalid variants format: '' @ raw))"

definition update_parse_labels :: "string list \<Rightarrow> string list option \<Rightarrow> string list" where
  "update_parse_labels stored field = (case field of None \<Rightarrow> stored | Some xs \<Rightarrow> map slugify xs)"

text \<open>
  The block "Validate color IDs": \<^verbatim>\<open>colorIds\<close>, and the object ids \<^verbatim>\<open>Color.find\<close>
  casts them to.
\<close>

definition update_color_ids :: "lib \<Rightarrow> variant_in list \<Rightarrow> string list" where
  "update_color_ids L vs =
     filter (\<lambda>c. c \<noteq> [] \<and> isValidObjectId L (Str c))
       (List.map_filter (\<lambda>v. color_in_id (in_color v)) vs)"

definition checked_colors :: "lib \<Rightarrow> variant_in list \<Rightarrow> oid list" where
  "checked_colors L vs = map (\<lambda>c. the (castObjectId L (Str c))) (update_color_ids L vs)"

text \<open>\<^verbatim>\<open>variant.color ?? existing.color\<close>\<close>

fun patch_color :: "color_in \<Rightarrow> color_val \<Rightarrow> color_val" where
  "patch_color CAbsent old = old"
| "patch_color (CStr s) old = ColorId s"
| "patch_color (CObj c) old = ColorObj c"
| "patch_color (CDoc c) old = ColorDoc c"

definition patch_variant :: "variant_in \<Rightarrow> mvariant \<Rightarrow> mvariant" where
  "patch_variant v e =
     e\<lparr>mv_color := patch_color (in_color v) (mv_color e),
       mv_price := (case in_price v of None \<Rightarrow> mv_price e | Some x \<Rightarrow> Some x),
       mv_sizes := (case in_sizes v of None \<Rightarrow> mv_sizes e | Some ss \<Rightarrow> ss)\<rparr>"

text \<open>
  \<^verbatim>\<open>findIndex\<close> by \<^verbatim>\<open>_id\<close> followed by the assignment at that index: the first
  variant with the id is patched, and nothing changes when there is none.
\<close>

fun patch_first :: "string \<Rightarrow> variant_in \<Rightarrow> mvariant list \<Rightarrow> mvariant list" where
  "patch_first k v [] = []"
| "patch_first k v (e # es) =
     (if mv_id e = k then patch_variant v e # es else e # patch_first k v es)"

definition new_variant :: "oid \<Rightarrow> variant_in \<Rightarrow> mvariant" where
  "new_variant k v =
     \<lparr>mv_id = k, mv_color = patch_color (in_color v) ColorNull, mv_price = in_price v,
      mv_sizes = (case in_sizes v of None \<Rightarrow> [] | Some ss \<Rightarrow> ss),
      mv_images = (case in_images v of None \<Rightarrow> [] | Some imgs \<Rightarrow> imgs)\<rparr>"

text \<open>
  One round of \<^verbatim>\<open>variants.forEach\<close> on the pair (\<^verbatim>\<open>updatedVariants\<close>,
  \<^verbatim>\<open>newVariants\<close>); \<open>fresh n\<close> is the \<open>n\<close>-th id \<^verbatim>\<open>new mongoose.Types.ObjectId()\<close>
  returns during the request.
\<close>

definition merge_step :: "lib \<Rightarrow> (nat \<Rightarrow> oid) \<Rightarrow> mvariant list \<times> mvariant list \<Rightarrow> variant_in \<Rightarrow> mvariant list \<times> mvariant list" where
  "merge_step L fresh acc v =
     (if truthy (in_id v) \<and> isValidObjectId L (Str (the (in_id v)))
      then (patch_first (the (in_id v)) v (fst acc), snd acc)
      else if color_truthy (in_color v)
      then (fst acc, snd acc @ [new_variant (fresh (length (snd acc))) v])
      else acc)"

definition merge_variants :: "lib \<Rightarrow> (nat \<Rightarrow> oid) \<Rightarrow> mvariant list \<Rightarrow> variant_in list \<Rightarrow> mvariant list" where
  "merge_variants L fresh existing vs =
     (let acc = foldl (merge_step L fresh) (existing, []) vs in fst acc @ snd acc)"

text \<open>
  The block \<^verbatim>\<open>if (req.files && Object.keys(req.files).length > 0)\<close>. The calls to
  \<^verbatim>\<open>cloudinary.uploader.destroy\<close> sit in their own \<^verbatim>\<open>try\<close>/\<^verbatim>\<open>catch\<close>, which only
  logs; they touch neither the collections nor the directory and are left out.
\<close>

definition update_attach :: "(nat \<Rightarrow> nat \<Rightarrow> string option) \<Rightarrow> files \<Rightarrow> mvariant list \<Rightarrow> mvariant list" where
  "update_attach alts files vs =
     map (\<lambda>(index, v).
            case map_of files index of
              Some ups \<Rightarrow> v\<lparr>mv_images := new_images alts index ups\<rparr>
            | None \<Rightarrow> v)
         (enumerate 0 vs)"

definition has_images :: "mvariant list \<Rightarrow> bool" where
  "has_images vs = list_ex (\<lambda>v. mv_images v \<noteq> []) vs"

text \<open>\<^verbatim>\<open>v.color?.toString()\<close>\<close>

fun color_toString :: "lib \<Rightarrow> color_val \<Rightarrow> string option" where
  "color_toString L ColorNull = None"
| "color_toString L (ColorId s) = Some s"
| "color_toString L (ColorObj c) = Some (objToString L c)"
| "color_toString L (ColorDoc c) = Some (docToString L c)"

text \<open>The object id Mongoose casts a variant's colour to; \<open>Inl\<close> is a \<^verbatim>\<open>CastError\<close>.\<close>

fun cast_color :: "lib \<Rightarrow> color_val \<Rightarrow> unit + oid option" where
  "cast_color L ColorNull = Inr None"
| "cast_color L (ColorId s) =
     (case castObjectId L (Str s) of None \<Rightarrow> Inl () | Some k \<Rightarrow> Inr (Some k))"
| "cast_color L (ColorObj c) = Inr (Some c)"
| "cast_color L (ColorDoc c) = Inr (Some c)"

definition store_variant :: "lib \<Rightarrow> mvariant \<Rightarrow> variant" where
  "store_variant L v =
     \<lparr>v_id = mv_id v,
      v_color = (case cast_color L (mv_color v) of Inl _ \<Rightarrow> None | Inr c \<Rightarrow> c),
      v_price = mv_price v, v_sizes = mv_sizes v, v_images = mv_images v\<rparr>"

text \<open>\<^verbatim>\<open>flag === 'true' || flag === true\<close> and \<^verbatim>\<open>flag === 'false' || flag === false\<close>\<close>

definition says_true :: "flag_in \<Rightarrow> bool" where
  "says_true f = (f = FStr ''true'' \<or> f = FBool True)"

definition says_false :: "flag_in \<Rightarrow> bool" where
  "says_false f = (f = FStr ''false'' \<or> f = FBool False)"

text \<open>\<^verbatim>\<open>parseFloat(field) || stored\<close>; \<^verbatim>\<open>parseFloat(undefined)\<close> is \<^verbatim>\<open>NaN\<close>.\<close>

definition number_or :: "lib \<Rightarrow> string option \<Rightarrow> rat \<Rightarrow> rat" where
  "number_or L field stored =
     (case field of
        None \<Rightarrow> stored
      | Some s \<Rightarrow> (case parseFloat L s of
                     None \<Rightarrow> stored
                   | Some x \<Rightarrow> (if x = 0 then stored else x)))"

text \<open>
  \<^verbatim>\<open>updateData\<close>, as the document \<^verbatim>\<open>$set\<close> leaves: every field of the stored
  product that the controller writes, the others (\<^verbatim>\<open>_id\<close>) kept. The category,
  the brand and the colours of the request are cast to object ids.
\<close>

definition cast_or :: "lib \<Rightarrow> string option \<Rightarrow> oid \<Rightarrow> oid option" where
  "cast_or L field stored =
     (case field of None \<Rightarrow> Some stored | Some s \<Rightarrow> castObjectId L (Str s))"

definition update_data :: "lib \<Rightarrow> update_req \<Rightarrow> product \<Rightarrow> string \<Rightarrow> mvariant list \<Rightarrow> string list \<Rightarrow> (string \<times> string) list \<Rightarrow> string list \<Rightarrow> product" where
  "update_data L rq product slug updatedVariants tags specifications collections =
     product\<lparr>p_name := nullish_or (u_name rq) (p_name product),
             p_slug := slug,
             p_category := the (cast_or L (u_category rq) (p_category product)),
             p_brand := the (cast_or L (u_brand rq) (p_brand product)),
             p_base_price := number_or L (u_base_price rq) (p_base_price product),
             p_description := nullish_or (u_description rq) (p_description product),
             p_variants := map (store_variant L) updatedVariants,
             p_isActive := (if says_true (u_isActive rq) then True else p_isActive product),
             p_tags := tags,
             p_videoUrl := nullish_or (u_videoUrl rq) (p_videoUrl product),
             p_isFeatured := (if says_true (u_isFeatured rq) then True else p_isFeatured product),
             p_isSoldOut := (if says_false (u_isSoldOut rq) then False else p_isSoldOut product),
             p_isVisible := (if says_true (u_isVisible rq) then True else p_isVisible product),
             p_specifications := specifications,
             p_collections := collections,
             p_discount := number_or L (u_discount rq) (p_discount product)\<rparr>"

text \<open>
  The atomic unit of \<^verbatim>\<open>updateProduct\<close>: the body of \<^verbatim>\<open>try\<close>, from
  \<^verbatim>\<open>startTransaction\<close> to \<^verbatim>\<open>commitTransaction\<close>, statement by statement. The
  product was loaded with \<^verbatim>\<open>category\<close> and \<^verbatim>\<open>brand\<close> populated, so
  \<^verbatim>\<open>product.category._id\<close> and \<^verbatim>\<open>product.brand._id\<close> throw a \<^verbatim>\<open>TypeError\<close> when
  the referenced document is gone; a store call throws a \<^verbatim>\<open>CastError\<close> on a value
  that is no object id. Each of the five writes carries \<^verbatim>\<open>{ session }\<close>.
\<close>

definition category_changed :: "update_req \<Rightarrow> product \<Rightarrow> bool" where
  "category_changed rq product =
     (truthy (u_category rq) \<and> the (u_category rq) \<noteq> p_category product)"

text \<open>
  The block "Update productCount for category if changed". The first call is given the
  object id \<^verbatim>\<open>product.category._id\<close>, the second the string of the request.
\<close>

definition update_category_counts :: "lib \<Rightarrow> store_op set \<Rightarrow> update_req \<Rightarrow> product \<Rightarrow> bool \<Rightarrow> txn \<Rightarrow> step" where
  "update_category_counts L faults rq product populated t =
     and_then (throw_if (truthy (u_category rq) \<and> \<not> populated) ''TypeError'' t) (\<lambda>_.
     if category_changed rq product
     then
       and_then (store_call (OpCategoryDec \<in> faults) ''Category.findByIdAndUpdate'' True
                   (\<lambda>w. w\<lparr>categories := category_inc (p_category product) (- 1) (categories w)\<rparr>)
                   t) (\<lambda>t1.
       and_then (cast_id L (the (u_category rq)) (''CastError'', t1)) (\<lambda>categoryId.
       store_call (OpCategoryInc \<in> faults) ''Category.findByIdAndUpdate'' True
         (\<lambda>w. w\<lparr>categories := category_inc categoryId 1 (categories w)\<rparr>) t1))
     else Inr t)"

text \<open>One \<^verbatim>\<open>if (ids.length > 0) await Color.updateMany(...)\<close>.\<close>

definition update_many_colors :: "lib \<Rightarrow> bool \<Rightarrow> string list \<Rightarrow> int \<Rightarrow> txn \<Rightarrow> step" where
  "update_many_colors L fault ids d t =
     (if ids \<noteq> []
      then and_then (cast_ids L ids (''CastError'', t)) (\<lambda>ks.
           store_call fault ''Color.updateMany'' True
             (\<lambda>w. w\<lparr>colors := colors_inc ks d (colors w)\<rparr>) t)
      else Inr t)"

definition update_color_counts :: "lib \<Rightarrow> store_op set \<Rightarrow> string list \<Rightarrow> string list \<Rightarrow> txn \<Rightarrow> step" where
  "update_color_counts L faults oldColorIds newColorIds t =
     (let colorsToIncrement = filter (\<lambda>c. c \<notin> set oldColorIds) newColorIds;
          colorsToDecrement = filter (\<lambda>c. c \<notin> set newColorIds) oldColorIds
      in and_then (update_many_colors L (OpColorsInc \<in> faults) colorsToIncrement 1 t) (\<lambda>t1.
         update_many_colors L (OpColorsDec \<in> faults) colorsToDecrement (- 1) t1))"

text \<open>\<^verbatim>\<open>Product.findByIdAndUpdate(req.params.id, { $set: updateData }, { new: true, session })\<close>\<close>

definition update_document :: "lib \<Rightarrow> store_op set \<Rightarrow> string \<Rightarrow> update_req \<Rightarrow> product \<Rightarrow> product \<Rightarrow> mvariant list \<Rightarrow> txn \<Rightarrow> step" where
  "update_document L faults pid rq product updateData updatedVariants t =
     and_then (cast_id L pid (''CastError'', t)) (\<lambda>k.
     store_call (OpProductUpdate \<in> faults
                  \<or> cast_or L (u_category rq) (p_category product) = None
                  \<or> cast_or L (u_brand rq) (p_brand product) = None
                  \<or> list_ex (\<lambda>v. cast_color L (mv_color v) = Inl ()) updatedVariants)
       ''Product.findByIdAndUpdate'' True
       (\<lambda>w. w\<lparr>products := replace_product k updateData (products w)\<rparr>) t)"

definition update_txn :: "lib \<Rightarrow> store_op set \<Rightarrow> string \<Rightarrow> update_req \<Rightarrow> product \<Rightarrow> string \<Rightarrow> mvariant list \<Rightarrow> string list \<Rightarrow> (string \<times> string) list \<Rightarrow> string list \<Rightarrow> world \<Rightarrow> step" where
  "update_txn L faults pid rq product slug updatedVariants tags specifications collections w =
     (let t = startTransaction w;
          oldColorIds = uniq (filter (\<lambda>c. c \<noteq> [])
                          (List.map_filter (populated_color (colors w)) (p_variants product)));
          newColorIds = uniq (filter (\<lambda>c. c \<noteq> [])
                          (List.map_filter (\<lambda>v. color_toString L (mv_color v)) updatedVariants));
          updateData = update_data L rq product slug updatedVariants tags specifications collections;
          category_populated = (find_category (p_category product) (categories w) \<noteq> None);
          brand_populated = (p_brand product \<in> set (brands w))
      in
      and_then (throw_if (u_category rq = None \<and> \<not> category_populated) ''TypeError'' t) (\<lambda>_.
      and_then (throw_if (u_brand rq = None \<and> \<not> brand_populated) ''TypeError'' t) (\<lambda>_.
      and_then (update_category_counts L faults rq product category_populated t) (\<lambda>t1.
      and_then (update_color_counts L faults oldColorIds newColorIds t1) (\<lambda>t2.
      and_then (update_document L faults pid rq product updateData updatedVariants t2) (\<lambda>t3.
      throw_if (OpCommit \<in> faults) ''commitTransaction'' t3))))))"

text \<open>
  The checks of \<^verbatim>\<open>updateProduct\<close> that read the incoming variants, in the order of
  the source: the loop over an array of variants, the parsing, and the block "Validate
  color IDs". \<open>Inl\<close> is the 400 response of the first check that fails, \<open>Inr\<close> the
  parsed variants.
\<close>

definition update_checks :: "lib \<Rightarrow> world \<Rightarrow> product \<Rightarrow> variants_in \<Rightarrow> outcome + variant_in list" where
  "update_checks L w product field =
     and_then (case (case field of VArray vs \<Rightarrow> validate_variants L vs | _ \<Rightarrow> None) of
                 Some rejection \<Rightarrow> Inl rejection | None \<Rightarrow> Inr ()) (\<lambda>_.
     and_then (case update_parse_variants (colors w) product field of
                 Inl msg \<Rightarrow> Inl (Responded BAD_REQUEST msg) | Inr variants \<Rightarrow> Inr variants) (\<lambda>variants.
     and_then (reject_if (length (colors_in (checked_colors L variants) (colors w))
                            \<noteq> length (update_color_ids L variants))
                 (Responded BAD_REQUEST ''One or more colors do not exist'')) (\<lambda>_.
     Inr variants)))"

text \<open>The merge followed by the uploads: \<^verbatim>\<open>updatedVariants\<close>, or the 400 of the uploads.\<close>

definition update_variants :: "lib \<Rightarrow> (nat \<Rightarrow> oid) \<Rightarrow> update_req \<Rightarrow> product \<Rightarrow> world \<Rightarrow> variant_in list \<Rightarrow> outcome + mvariant list" where
  "update_variants L fresh rq product w variants =
     (let merged = merge_variants L fresh (map (to_object (colors w)) (p_variants product)) variants;
          uploading = (case u_files rq of None \<Rightarrow> False | Some fs \<Rightarrow> fs \<noteq> []);
          updatedVariants = (if uploading then update_attach (u_imageAlt rq) (the (u_files rq)) merged
                             else merged)
      in and_then (reject_if (uploading \<and> \<not> has_images updatedVariants)
                     (Responded BAD_REQUEST ''Uploaded images must be assigned to a variant'')) (\<lambda>_.
         Inr updatedVariants))"

text \<open>The block "Update slug if name changes".\<close>

definition update_slug :: "string \<Rightarrow> update_req \<Rightarrow> product \<Rightarrow> world \<Rightarrow> outcome + string" where
  "update_slug pid rq product w =
     (let renamed = (truthy (u_name rq) \<and> the (u_name rq) \<noteq> p_name product);
          slug = (if renamed then slugify (the (u_name rq)) else p_slug product)
      in and_then (reject_if (renamed \<and> (case find (\<lambda>p. p_slug p = slug) (products w) of
                                           None \<Rightarrow> False | Some existing \<Rightarrow> p_id existing \<noteq> pid))
                     (Responded CONFLICT ''PRODUCT_MESSAGES.PRODUCT_EXISTS'')) (\<lambda>_.
         Inr slug))"

text \<open>
  \<^verbatim>\<open>updateProduct\<close>, in the order of the source: the id check, the load, the checks
  on the variants, the merge and the uploads, the slug, the atomic unit. (The labels
  and the specifications are parsed between the parsing of the variants and the colour
  check; nothing there fails on the field shapes kept here.) A response sent before the
  atomic unit leaves the state as it was; the \<^verbatim>\<open>catch\<close> aborts the transaction
  and answers 500.
\<close>

definition updateProduct :: "lib \<Rightarrow> store_op set \<Rightarrow> (nat \<Rightarrow> oid) \<Rightarrow> string \<Rightarrow> update_req \<Rightarrow> world \<Rightarrow> outcome \<times> world" where
  "updateProduct L faults fresh pid rq w =
     (case castObjectId L (Str pid) of
        None \<Rightarrow> (Responded BAD_REQUEST ''Invalid product ID'', w)
      | Some k \<Rightarrow>
     (case find_product k (products w) of
        None \<Rightarrow> (Responded NOT_FOUND ''PRODUCT_MESSAGES.PRODUCT_NOT_FOUND'', w)
      | Some product \<Rightarrow>
          (case and_then (update_checks L w product (u_variants rq)) (\<lambda>variants.
                and_then (update_variants L fresh rq product w variants) (\<lambda>updatedVariants.
                and_then (update_slug pid rq product w) (\<lambda>slug. Inr (updatedVariants, slug)))) of
             Inl rejection \<Rightarrow> (rejection, w)
           | Inr (updatedVariants, slug) \<Rightarrow>
               (case update_txn L faults pid rq product slug updatedVariants
                       (update_parse_labels (p_tags product) (u_tags rq))
                       (nullish_or (u_specifications rq) (p_specifications product))
                       (update_parse_labels (p_collections product) (u_collections rq)) w of
                  Inl (msg, t) \<Rightarrow>
                    (Responded SERVER_ERROR (''PRODUCT_MESSAGES.PRODUCT_UPDATE_FAILED: '' @ msg),
                     abortTransaction t)
                | Inr t \<Rightarrow>
                    (Responded OK ''PRODUCT_MESSAGES.PRODUCT_UPDATED'', commitTransaction t)))))"

section \<open>Customer queries\<close>

text \<open>
  Every parameter of \<^verbatim>\<open>req.query\<close> is absent or a value of the query string. The
  handlers destructure the same names; \<^verbatim>\<open>search\<close> is read by the listing endpoint
  only, \<^verbatim>\<open>available\<close> and \<^verbatim>\<open>soldOut\<close> by the filter endpoint only.
\<close>

record filter_req =
  f_search :: "jsval option"
  f_category :: "jsval option"
  f_size :: "jsval option"
  f_colors :: "jsval option"
  f_brands :: "jsval option"
  f_collections :: "jsval option"
  f_tags :: "jsval option"
  f_minPrice :: "jsval option"
  f_maxPrice :: "jsval option"
  f_available :: "jsval option"
  f_soldOut :: "jsval option"
  f_page :: "jsval option"
  f_limit :: "jsval option"
  f_sortBy :: "jsval option"
  f_sortOrder :: "jsval option"

text \<open>
  The query object sent to \<^verbatim>\<open>Product.find\<close> and \<^verbatim>\<open>Product.countDocuments\<close>, one
  field per key the handlers set. \<open>q_search\<close> holds the search term: the pattern is
  that term with every regular-expression metacharacter escaped, so it matches the term
  literally, without regard to case, in \<^verbatim>\<open>name\<close>, \<^verbatim>\<open>description\<close> or a tag.
  \<open>q_variant_price\<close> always comes with \<^verbatim>\<open>$exists: true, $ne: null\<close>.
\<close>

record price_range =
  pr_gte :: "rat option"
  pr_lte :: "rat option"

datatype quantity_cond = QuantityGt int | QuantityLte int

record query =
  q_isVisible :: "bool option"
  q_isSoldOut :: "bool option"
  q_search :: "string option"
  q_category :: "oid option"
  q_base_price :: "price_range option"
  q_tags :: "string list option"
  q_colors :: "oid list option"
  q_brand :: "oid list option"
  q_collections :: "string list option"
  q_sizes :: "string list option"
  q_variant_price :: "price_range option"
  q_quantity :: "quantity_cond option"

definition empty_query :: query where
  "empty_query =
     \<lparr>q_isVisible = None, q_isSoldOut = None, q_search = None, q_category = None,
      q_base_price = None, q_tags = None, q_colors = None, q_brand = None,
      q_collections = None, q_sizes = None, q_variant_price = None, q_quantity = None\<rparr>"

record built =
  b_query :: query
  b_sort :: "string \<times> int"
  b_skip :: int
  b_limit :: int
  b_message :: string

subsection \<open>Values of the query string\<close>

definition dq :: string where
  "dq = [CHR 0x22]"

definition is_space :: "char \<Rightarrow> bool" where
  "is_space c = (of_char c \<in> {9, 10, 11, 12, 13, 32, 160 :: nat})"

definition trim :: "string \<Rightarrow> string" where
  "trim s = rev (dropWhile is_space (rev (dropWhile is_space s)))"

text \<open>\<^verbatim>\<open>s.split(',')\<close>\<close>

fun split_comma :: "string \<Rightarrow> string list" where
  "split_comma [] = [[]]"
| "split_comma (c # cs) =
     (if c = CHR '','' then [] # split_comma cs
      else (case split_comma cs of w # ws \<Rightarrow> (c # w) # ws | [] \<Rightarrow> [[c]]))"

fun join_comma :: "string list \<Rightarrow> string" where
  "join_comma [] = []"
| "join_comma [x] = x"
| "join_comma (x # y # ys) = x @ '','' @ join_comma (y # ys)"

text \<open>JavaScript truthiness: arrays and objects are truthy, a string when non-empty.\<close>

fun js_truthy :: "jsval option \<Rightarrow> bool" where
  "js_truthy None = False"
| "js_truthy (Some (Str s)) = (s \<noteq> [])"
| "js_truthy (Some (Arr xs)) = True"
| "js_truthy (Some (Obj kvs)) = True"

fun is_Str :: "jsval \<Rightarrow> bool" where
  "is_Str (Str s) = True"
| "is_Str (Arr xs) = False"
| "is_Str (Obj kvs) = False"

fun the_Str :: "jsval \<Rightarrow> string" where
  "the_Str (Str s) = s"
| "the_Str (Arr xs) = []"
| "the_Str (Obj kvs) = []"

text \<open>
  The string a value is converted to by a template literal, \<^verbatim>\<open>parseInt\<close> and
  \<^verbatim>\<open>parseFloat\<close>: a string is itself, an array the strings of its elements joined
  by commas, an object \<^verbatim>\<open>[object Object]\<close>. An object of the query string that has
  a key \<^verbatim>\<open>toString\<close> hides the method of that name behind a value that cannot be
  called, and the conversion throws a \<^verbatim>\<open>TypeError\<close> (\<open>None\<close>).
\<close>

fun to_text :: "jsval \<Rightarrow> string option" where
  "to_text (Str s) = Some s"
| "to_text (Arr xs) = map_option join_comma (those (map to_text xs))"
| "to_text (Obj kvs) =
     (if ''toString'' \<in> set (map fst kvs) then None else Some ''[object Object]'')"

definition text_of :: "jsval \<Rightarrow> outcome + string" where
  "text_of v = (case to_text v of None \<Rightarrow> Inl (Thrown ''TypeError'') | Some s \<Rightarrow> Inr s)"

text \<open>\<^verbatim>\<open>Array.isArray(value) ? value : [value]\<close>\<close>

fun as_array :: "jsval \<Rightarrow> jsval list" where
  "as_array (Arr xs) = xs"
| "as_array (Str s) = [Str s]"
| "as_array (Obj kvs) = [Obj kvs]"

text \<open>
  The helper \<^verbatim>\<open>parseFilterArray\<close> of \<^verbatim>\<open>filterCustomerProducts\<close>. On an array the
  test \<^verbatim>\<open>v && v.trim().length > 0\<close> calls \<^verbatim>\<open>trim\<close> on every truthy element, and
  \<^verbatim>\<open>value.split(',')\<close> is called on whatever is no array: both throw a
  \<^verbatim>\<open>TypeError\<close> on anything but a string.
\<close>

fun parseFilterArray :: "jsval option \<Rightarrow> outcome + string list" where
  "parseFilterArray None = Inr []"
| "parseFilterArray (Some (Str s)) =
     (if s = [] then Inr [] else Inr (filter (\<lambda>v. v \<noteq> []) (map trim (split_comma s))))"
| "parseFilterArray (Some (Arr xs)) =
     (if list_all is_Str xs
      then Inr (map trim (filter (\<lambda>v. v \<noteq> [] \<and> trim v \<noteq> []) (map the_Str xs)))
      else Inl (Thrown ''TypeError''))"
| "parseFilterArray (Some (Obj kvs)) = Inl (Thrown ''TypeError'')"

text \<open>\<^verbatim>\<open>parseInt(field, 10) || dflt\<close>, the field defaulting to \<open>dflt\<close> when absent.\<close>

definition int_or :: "lib \<Rightarrow> jsval option \<Rightarrow> int \<Rightarrow> outcome + int" where
  "int_or L field dflt =
     (case field of
        None \<Rightarrow> Inr dflt
      | Some v \<Rightarrow>
          and_then (text_of v) (\<lambda>s.
          Inr (case parseInt L s of None \<Rightarrow> dflt | Some n \<Rightarrow> (if n = 0 then dflt else n))))"

text \<open>\<^verbatim>\<open>field && !isNaN(parseFloat(field)) ? parseFloat(field) : null\<close>\<close>

definition price_bound :: "lib \<Rightarrow> jsval option \<Rightarrow> outcome + rat option" where
  "price_bound L field =
     (if js_truthy field then and_then (text_of (the field)) (\<lambda>s. Inr (parseFloat L s))
      else Inr None)"

text \<open>\<^verbatim>\<open>Category.findOne({ slug: category, isActive: true })\<close>\<close>

definition active_category_by_slug :: "string \<Rightarrow> category list \<Rightarrow> category option" where
  "active_category_by_slug slug cs = find (\<lambda>c. cat_slug c = slug \<and> cat_isActive c) cs"

text \<open>
  The block "Sorting". \<^verbatim>\<open>includes\<close> compares with strict equality, so only a string
  can be a valid sort field, and \<^verbatim>\<open>sortOrder.toLowerCase()\<close>, evaluated for a valid
  field only, throws a \<^verbatim>\<open>TypeError\<close> on an array or an object.
\<close>

definition sort_spec :: "string list \<Rightarrow> jsval option \<Rightarrow> jsval option \<Rightarrow> outcome + string \<times> int" where
  "sort_spec validSortFields sortBy sortOrder =
     (case nullish_or sortBy (Str ''createdAt'') of
        Str by \<Rightarrow>
          (if by \<in> set validSortFields
           then (case nullish_or sortOrder (Str ''desc'') of
                   Str order \<Rightarrow> Inr (by, if toLowerCase order = ''asc'' then 1 else - 1)
                 | Arr xs \<Rightarrow> Inl (Thrown ''TypeError'')
                 | Obj kvs \<Rightarrow> Inl (Thrown ''TypeError''))
           else Inr (''createdAt'', - 1))
      | Arr xs \<Rightarrow> Inr (''createdAt'', - 1)
      | Obj kvs \<Rightarrow> Inr (''createdAt'', - 1))"

subsection \<open>The filter endpoint\<close>

text \<open>
  \<^verbatim>\<open>filterCustomerProducts\<close> builds its query and its message filter by filter. A
  step takes the pair of both and either returns it extended or stops the handler, with
  a 400 response or with the \<^verbatim>\<open>TypeError\<close> of a method called on a value that has
  none; everything up to the sorting is outside \<^verbatim>\<open>try\<close>.
\<close>

type_synonym draft = "query \<times> string"

definition page_window :: "lib \<Rightarrow> filter_req \<Rightarrow> outcome + int \<times> int" where
  "page_window L rq =
     and_then (int_or L (f_page rq) 1) (\<lambda>pageNum.
     and_then (int_or L (f_limit rq) 12) (\<lambda>limitNum.
     and_then (reject_if (pageNum < 1 \<or> limitNum < 1)
                 (Responded BAD_REQUEST ''Invalid page or limit value'')) (\<lambda>_.
     Inr ((pageNum - 1) * limitNum, limitNum))))"

text \<open>
  The block "Category filter", the same in both endpoints. \<^verbatim>\<open>category?.trim()\<close>
  throws on an array or an object.
\<close>

definition category_filter :: "lib \<Rightarrow> filter_req \<Rightarrow> world \<Rightarrow> draft \<Rightarrow> outcome + draft" where
  "category_filter L rq w qm =
     (case f_category rq of
        None \<Rightarrow> Inr qm
      | Some (Arr xs) \<Rightarrow> Inl (Thrown ''TypeError'')
      | Some (Obj kvs) \<Rightarrow> Inl (Thrown ''TypeError'')
      | Some (Str category) \<Rightarrow>
          (if trim category \<noteq> []
           then
             (let message = snd qm @ '' in category '' @ dq @ category @ dq
              in case castObjectId L (Str category) of
                   Some k \<Rightarrow> Inr ((fst qm)\<lparr>q_category := Some k\<rparr>, message)
                 | None \<Rightarrow>
                     (case active_category_by_slug category (categories w) of
                        None \<Rightarrow> Inl (Responded BAD_REQUEST ''Invalid category'')
                      | Some categoryDoc \<Rightarrow>
                          Inr ((fst qm)\<lparr>q_category := Some (cat_id categoryDoc)\<rparr>, message)))
           else Inr qm))"

definition size_filter :: "filter_req \<Rightarrow> draft \<Rightarrow> outcome + draft" where
  "size_filter rq qm =
     (if js_truthy (f_size rq)
      then and_then (parseFilterArray (f_size rq)) (\<lambda>sizeArray.
           if sizeArray \<noteq> []
           then and_then (text_of (the (f_size rq))) (\<lambda>shown.
                Inr ((fst qm)\<lparr>q_sizes := Some sizeArray\<rparr>,
                     snd qm @ '' with sizes '' @ dq @ shown @ dq))
           else Inr qm)
      else Inr qm)"

definition colors_filter :: "lib \<Rightarrow> filter_req \<Rightarrow> draft \<Rightarrow> outcome + draft" where
  "colors_filter L rq qm =
     (if js_truthy (f_colors rq)
      then and_then (parseFilterArray (f_colors rq)) (\<lambda>colorIds.
           if colorIds \<noteq> [] \<and> list_all (\<lambda>c. isValidObjectId L (Str c)) colorIds
           then and_then (text_of (the (f_colors rq))) (\<lambda>shown.
                Inr ((fst qm)\<lparr>q_colors := Some (map (\<lambda>c. the (castObjectId L (Str c))) colorIds)\<rparr>,
                     snd qm @ '' with colors '' @ dq @ shown @ dq))
           else Inl (Responded BAD_REQUEST ''Invalid color ID(s)''))
      else Inr qm)"

definition brands_filter :: "lib \<Rightarrow> filter_req \<Rightarrow> draft \<Rightarrow> outcome + draft" where
  "brands_filter L rq qm =
     (if js_truthy (f_brands rq)
      then and_then (parseFilterArray (f_brands rq)) (\<lambda>brandIds.
           if brandIds \<noteq> [] \<and> list_all (\<lambda>c. isValidObjectId L (Str c)) brandIds
           then and_then (text_of (the (f_brands rq))) (\<lambda>shown.
                Inr ((fst qm)\<lparr>q_brand := Some (map (\<lambda>c. the (castObjectId L (Str c))) brandIds)\<rparr>,
                     snd qm @ '' with brands '' @ dq @ shown @ dq))
           else Inl (Responded BAD_REQUEST ''Invalid brand ID(s)''))
      else Inr qm)"

definition collections_filter :: "filter_req \<Rightarrow> draft \<Rightarrow> outcome + draft" where
  "collections_filter rq qm =
     (if js_truthy (f_collections rq)
      then and_then (parseFilterArray (f_collections rq)) (\<lambda>collectionsArray.
           if collectionsArray \<noteq> []
           then and_then (text_of (the (f_collections rq))) (\<lambda>shown.
                Inr ((fst qm)\<lparr>q_collections := Some collectionsArray\<rparr>,
                     snd qm @ '' with collections '' @ dq @ shown @ dq))
           else Inr qm)
      else Inr qm)"

definition tags_filter :: "filter_req \<Rightarrow> draft \<Rightarrow> outcome + draft" where
  "tags_filter rq qm =
     (if js_truthy (f_tags rq)
      then and_then (parseFilterArray (f_tags rq)) (\<lambda>tagsArray.
           if tagsArray \<noteq> []
           then and_then (text_of (the (f_tags rq))) (\<lambda>shown.
                Inr ((fst qm)\<lparr>q_tags := Some (map toLowerCase tagsArray)\<rparr>,
                     snd qm @ '' with tags '' @ dq @ shown @ dq))
           else Inr qm)
      else Inr qm)"

text \<open>
  The block "Price filter (applied to variants.price)". A bound that was read as a
  number was converted to a string on the way, so the message can print it.
\<close>

definition price_filter :: "lib \<Rightarrow> filter_req \<Rightarrow> draft \<Rightarrow> outcome + draft" where
  "price_filter L rq qm =
     (if js_truthy (f_minPrice rq) \<or> js_truthy (f_maxPrice rq)
      then
        and_then (price_bound L (f_minPrice rq)) (\<lambda>min.
        and_then (price_bound L (f_maxPrice rq)) (\<lambda>max.
        and_then (reject_if (case min of None \<Rightarrow> False | Some a \<Rightarrow> a < 0)
                    (Responded BAD_REQUEST ''Minimum price cannot be negative'')) (\<lambda>_.
        and_then (reject_if (case max of None \<Rightarrow> False | Some b \<Rightarrow> b < 0)
                    (Responded BAD_REQUEST ''Maximum price cannot be negative'')) (\<lambda>_.
        and_then (reject_if (case min of None \<Rightarrow> False
                             | Some a \<Rightarrow> (case max of None \<Rightarrow> False | Some b \<Rightarrow> a > b))
                    (Responded BAD_REQUEST
                       ''Minimum price cannot be greater than maximum price'')) (\<lambda>_.
        Inr ((fst qm)\<lparr>q_variant_price := Some \<lparr>pr_gte = min, pr_lte = max\<rparr>\<rparr>,
             snd qm
               @ (if min \<noteq> None
                  then '' with price >= '' @ the (to_text (the (f_minPrice rq))) else [])
               @ (if max \<noteq> None
                  then '' with price <= '' @ the (to_text (the (f_maxPrice rq))) else [])))))))
      else Inr qm)"

text \<open>
  The price bounds of a request are out of order when both are supplied, both are read
  as numbers and the minimum exceeds the maximum, or when a supplied bound is read as a
  negative number (and the other bound is read without a \<^verbatim>\<open>TypeError\<close>).
\<close>

definition bad_range :: "lib \<Rightarrow> filter_req \<Rightarrow> bool" where
  "bad_range L rq =
     ((\<exists>a b. price_bound L (f_minPrice rq) = Inr (Some a)
            \<and> price_bound L (f_maxPrice rq) = Inr (Some b) \<and> a > b)
      \<or> (\<exists>a. price_bound L (f_minPrice rq) = Inr (Some a) \<and> a < 0
            \<and> (\<exists>b. price_bound L (f_maxPrice rq) = Inr b))
      \<or> (\<exists>b. price_bound L (f_maxPrice rq) = Inr (Some b) \<and> b < 0
            \<and> (\<exists>a. price_bound L (f_minPrice rq) = Inr a)))"

text \<open>
  A handler refuses a request when it answers 400 or lets a \<^verbatim>\<open>TypeError\<close> escape:
  either way it stops before its query runs.
\<close>

fun refuses :: "outcome \<Rightarrow> bool" where
  "refuses (Responded st msg) = (st = BAD_REQUEST)"
| "refuses (Thrown msg) = (msg = ''TypeError'')"

text \<open>
  The block "Availability filter". A value of the query string is never the boolean
  \<^verbatim>\<open>true\<close>, so \<^verbatim>\<open>available === 'true' || available === true\<close> holds of the string
  \<^verbatim>\<open>true\<close> alone.
\<close>

definition availability_filter :: "filter_req \<Rightarrow> draft \<Rightarrow> draft" where
  "availability_filter rq qm =
     (if f_available rq \<noteq> None
      then
        (let isAvailable = (f_available rq = Some (Str ''true''))
         in ((fst qm)\<lparr>q_quantity := Some (if isAvailable then QuantityGt 0 else QuantityLte 0)\<rparr>,
             snd qm @ '' '' @ (if isAvailable then ''available'' else ''unavailable'')
               @ '' products''))
      else qm)"

definition soldout_filter :: "filter_req \<Rightarrow> draft \<Rightarrow> draft" where
  "soldout_filter rq qm =
     (if f_soldOut rq \<noteq> None
      then ((fst qm)\<lparr>q_isSoldOut := Some (f_soldOut rq = Some (Str ''true''))\<rparr>,
            snd qm @ '' '' @ (if js_truthy (f_soldOut rq) then ''sold out'' else ''not sold out'')
              @ '' products'')
      else qm)"

text \<open>
  \<^verbatim>\<open>filterCustomerProducts\<close> up to the \<^verbatim>\<open>try\<close> that runs the query, in the order of
  the source: \<open>Inl\<close> is the response of an early \<^verbatim>\<open>return\<close> or the exception that
  escapes, \<open>Inr\<close> the query, the sort, the window and the message.
\<close>

definition filter_build :: "lib \<Rightarrow> filter_req \<Rightarrow> world \<Rightarrow> outcome + built" where
  "filter_build L rq w =
     and_then (page_window L rq) (\<lambda>window.
     and_then (category_filter L rq w
                 (empty_query\<lparr>q_isVisible := Some True\<rparr>, ''PRODUCT_MESSAGES.PRODUCTS_FETCHED'')) (\<lambda>qm.
     and_then (size_filter rq qm) (\<lambda>qm.
     and_then (colors_filter L rq qm) (\<lambda>qm.
     and_then (brands_filter L rq qm) (\<lambda>qm.
     and_then (collections_filter rq qm) (\<lambda>qm.
     and_then (tags_filter rq qm) (\<lambda>qm.
     and_then (price_filter L rq qm) (\<lambda>qm.
     and_then (sort_spec [''createdAt'', ''base_price'', ''rating'', ''viewCount'', ''name'']
                 (f_sortBy rq) (f_sortOrder rq)) (\<lambda>sort.
     Inr \<lparr>b_query = fst (soldout_filter rq (availability_filter rq qm)),
          b_sort = sort,
          b_skip = fst window, b_limit = snd window,
          b_message = snd (soldout_filter rq (availability_filter rq qm))\<rparr>)))))))))"

subsection \<open>What a query selects\<close>

text \<open>
  The documented matching rules of the store. A condition on a path that runs through
  arrays (\<^verbatim>\<open>variants.sizes.quantity\<close>) holds of a document when it holds of at least
  one element reached by the path; \<^verbatim>\<open>$in\<close> on an array field holds when some
  element is in the list; several comparison operators on one array path may be met by
  different elements, while \<^verbatim>\<open>$ne: null\<close> needs every element to be there.
\<close>

fun in_range :: "price_range \<Rightarrow> rat \<Rightarrow> bool" where
  "in_range r x =
     ((case pr_gte r of None \<Rightarrow> True | Some a \<Rightarrow> a \<le> x)
      \<and> (case pr_lte r of None \<Rightarrow> True | Some b \<Rightarrow> x \<le> b))"

definition all_quantities :: "product \<Rightarrow> int list" where
  "all_quantities p = map sz_quantity (concat (map v_sizes (p_variants p)))"

fun sat_quantity :: "quantity_cond \<Rightarrow> product \<Rightarrow> bool" where
  "sat_quantity (QuantityGt n) p = list_ex (\<lambda>q. n < q) (all_quantities p)"
| "sat_quantity (QuantityLte n) p = list_ex (\<lambda>q. q \<le> n) (all_quantities p)"

definition sat_variant_price :: "price_range \<Rightarrow> product \<Rightarrow> bool" where
  "sat_variant_price r p =
     (let prices = map v_price (p_variants p)
      in prices \<noteq> [] \<and> list_all (\<lambda>x. x \<noteq> None) prices
         \<and> (case pr_gte r of None \<Rightarrow> True | Some a \<Rightarrow> list_ex (\<lambda>x. a \<le> the x) prices)
         \<and> (case pr_lte r of None \<Rightarrow> True | Some b \<Rightarrow> list_ex (\<lambda>x. the x \<le> b) prices))"

fun contains :: "string \<Rightarrow> string \<Rightarrow> bool" where
  "contains needle [] = (needle = [])"
| "contains needle (c # cs) = (take (length needle) (c # cs) = needle \<or> contains needle cs)"

definition sat_search :: "string \<Rightarrow> product \<Rightarrow> bool" where
  "sat_search term p =
     list_ex (\<lambda>field. contains (toLowerCase term) (toLowerCase field))
       (p_name p # p_description p # p_tags p)"

definition holds :: "'a option \<Rightarrow> ('a \<Rightarrow> bool) \<Rightarrow> bool" where
  "holds cond sat = (case cond of None \<Rightarrow> True | Some c \<Rightarrow> sat c)"

definition matches :: "query \<Rightarrow> product \<Rightarrow> bool" where
  "matches q p =
     (holds (q_isVisible q) (\<lambda>b. p_isVisible p = b)
      \<and> holds (q_isSoldOut q) (\<lambda>b. p_isSoldOut p = b)
      \<and> holds (q_search q) (\<lambda>term. sat_search term p)
      \<and> holds (q_category q) (\<lambda>c. p_category p = c)
      \<and> holds (q_base_price q) (\<lambda>r. in_range r (p_base_price p))
      \<and> holds (q_tags q) (\<lambda>ts. list_ex (\<lambda>t. t \<in> set ts) (p_tags p))
      \<and> holds (q_colors q) (\<lambda>cs. list_ex (\<lambda>v. case v_color v of None \<Rightarrow> False | Some c \<Rightarrow> c \<in> set cs) (p_variants p))
      \<and> holds (q_brand q) (\<lambda>bs. p_brand p \<in> set bs)
      \<and> holds (q_collections q) (\<lambda>cs. list_ex (\<lambda>c. c \<in> set cs) (p_collections p))
      \<and> holds (q_sizes q) (\<lambda>ss. list_ex (\<lambda>e. sz_size e \<in> set ss) (concat (map v_sizes (p_variants p))))
      \<and> holds (q_variant_price q) (\<lambda>r. sat_variant_price r p)
      \<and> holds (q_quantity q) (\<lambda>c. sat_quantity c p))"

text \<open>
  \<^verbatim>\<open>filterCustomerProducts\<close>: the response status and message, and the products the
  query selects (\<^verbatim>\<open>totalItems\<close> is their number; the page is cut from them after
  sorting).
\<close>

definition filterCustomerProducts :: "lib \<Rightarrow> filter_req \<Rightarrow> world \<Rightarrow> outcome \<times> product list" where
  "filterCustomerProducts L rq w =
     (case filter_build L rq w of
        Inl rejection \<Rightarrow> (rejection, [])
      | Inr b \<Rightarrow> (Responded OK (b_message b), filter (matches (b_query b)) (products w)))"

text \<open>A product has stock when some size of some variant has a positive quantity.\<close>

definition has_stock :: "product \<Rightarrow> bool" where
  "has_stock p = list_ex (\<lambda>v. list_ex (\<lambda>e. 0 < sz_quantity e) (v_sizes v)) (p_variants p)"

subsection \<open>The listing endpoint\<close>

text \<open>
  \<^verbatim>\<open>getCustomerProducts\<close>. Its category block is the one of the filter endpoint; the
  others differ. \<^verbatim>\<open>search?.trim()\<close> and \<^verbatim>\<open>tags?.trim()\<close> throw a \<^verbatim>\<open>TypeError\<close>
  on an array or an object, which escapes the handler.
\<close>

definition search_filter :: "filter_req \<Rightarrow> draft \<Rightarrow> outcome + draft" where
  "search_filter rq qm =
     (case f_search rq of
        None \<Rightarrow> Inr qm
      | Some (Arr xs) \<Rightarrow> Inl (Thrown ''TypeError'')
      | Some (Obj kvs) \<Rightarrow> Inl (Thrown ''TypeError'')
      | Some (Str search) \<Rightarrow>
          (if trim search \<noteq> []
           then Inr ((fst qm)\<lparr>q_search := Some search\<rparr>,
                     snd qm @ '' matching '' @ dq @ search @ dq)
           else Inr qm))"

text \<open>
  The block "Handle price filter": the bounds go into the query as they are read, with
  no check on their sign or their order.
\<close>

definition list_price_filter :: "lib \<Rightarrow> filter_req \<Rightarrow> draft \<Rightarrow> outcome + draft" where
  "list_price_filter L rq qm =
     (if js_truthy (f_minPrice rq) \<or> js_truthy (f_maxPrice rq)
      then
        and_then (price_bound L (f_minPrice rq)) (\<lambda>min.
        and_then (price_bound L (f_maxPrice rq)) (\<lambda>max.
        Inr ((fst qm)\<lparr>q_base_price := Some \<lparr>pr_gte = min, pr_lte = max\<rparr>\<rparr>,
             snd qm
               @ (if min \<noteq> None
                  then '' with price >= '' @ the (to_text (the (f_minPrice rq))) else [])
               @ (if max \<noteq> None
                  then '' with price <= '' @ the (to_text (the (f_maxPrice rq))) else []))))
      else Inr qm)"

definition list_tags_filter :: "filter_req \<Rightarrow> draft \<Rightarrow> outcome + draft" where
  "list_tags_filter rq qm =
     (case f_tags rq of
        None \<Rightarrow> Inr qm
      | Some (Arr xs) \<Rightarrow> Inl (Thrown ''TypeError'')
      | Some (Obj kvs) \<Rightarrow> Inl (Thrown ''TypeError'')
      | Some (Str s) \<Rightarrow>
          (let tagArray = filter (\<lambda>t. t \<noteq> []) (map (\<lambda>t. toLowerCase (trim t)) (split_comma s))
           in if trim s \<noteq> [] \<and> tagArray \<noteq> []
              then Inr ((fst qm)\<lparr>q_tags := Some tagArray\<rparr>, snd qm @ '' with tags '' @ dq @ s @ dq)
              else Inr qm))"

definition list_colors_filter :: "lib \<Rightarrow> filter_req \<Rightarrow> draft \<Rightarrow> outcome + draft" where
  "list_colors_filter L rq qm =
     (if js_truthy (f_colors rq)
      then
        (let colorIds = as_array (the (f_colors rq))
         in if list_all (isValidObjectId L) colorIds
            then and_then (text_of (the (f_colors rq))) (\<lambda>shown.
                 Inr ((fst qm)\<lparr>q_colors := Some (map (\<lambda>c. the (castObjectId L c)) colorIds)\<rparr>,
                      snd qm @ '' with colors '' @ dq @ shown @ dq))
            else Inl (Responded BAD_REQUEST ''Invalid color ID(s)''))
      else Inr qm)"

definition list_brands_filter :: "lib \<Rightarrow> filter_req \<Rightarrow> draft \<Rightarrow> outcome + draft" where
  "list_brands_filter L rq qm =
     (if js_truthy (f_brands rq)
      then
        (let brandIds = as_array (the (f_brands rq))
         in if list_all (isValidObjectId L) brandIds
            then and_then (text_of (the (f_brands rq))) (\<lambda>shown.
                 Inr ((fst qm)\<lparr>q_brand := Some (map (\<lambda>c. the (castObjectId L c)) brandIds)\<rparr>,
                      snd qm @ '' with brands '' @ dq @ shown @ dq))
            else Inl (Responded BAD_REQUEST ''Invalid brand ID(s)''))
      else Inr qm)"

text \<open>
  The blocks "Handle collections filter" and "Handle size filter" put the elements of
  an array into \<^verbatim>\<open>$in\<close> as they are. The store casts them to the strings the path
  holds when the query runs: a string is kept, an array or an object is cast by the
  library, which may fail.
\<close>

definition collection_values :: "jsval option \<Rightarrow> outcome + jsval list" where
  "collection_values field =
     (case field of
        None \<Rightarrow> Inr []
      | Some (Arr xs) \<Rightarrow> Inr xs
      | Some (Obj kvs) \<Rightarrow> Inl (Thrown ''TypeError'')
      | Some (Str s) \<Rightarrow> Inr (map Str (filter (\<lambda>c. c \<noteq> []) (map trim (split_comma s)))))"

definition cast_string :: "lib \<Rightarrow> jsval \<Rightarrow> string option" where
  "cast_string L v = (case v of Str s \<Rightarrow> Some s | _ \<Rightarrow> castString L v)"

definition list_collections_filter :: "lib \<Rightarrow> filter_req \<Rightarrow> draft \<Rightarrow> outcome + draft" where
  "list_collections_filter L rq qm =
     (if js_truthy (f_collections rq)
      then and_then (collection_values (f_collections rq)) (\<lambda>collectionArray.
           if collectionArray \<noteq> []
           then and_then (text_of (the (f_collections rq))) (\<lambda>shown.
                Inr ((fst qm)\<lparr>q_collections :=
                                 Some (List.map_filter (cast_string L) collectionArray)\<rparr>,
                     snd qm @ '' with collections '' @ dq @ shown @ dq))
           else Inr qm)
      else Inr qm)"

definition list_size_filter :: "lib \<Rightarrow> filter_req \<Rightarrow> draft \<Rightarrow> outcome + draft" where
  "list_size_filter L rq qm =
     (if js_truthy (f_size rq) \<and> as_array (the (f_size rq)) \<noteq> []
      then and_then (text_of (the (f_size rq))) (\<lambda>shown.
           Inr ((fst qm)\<lparr>q_sizes :=
                            Some (List.map_filter (cast_string L)
                                    (as_array (the (f_size rq))))\<rparr>,
                snd qm @ '' with sizes '' @ dq @ shown @ dq))
      else Inr qm)"

text \<open>
  What makes the store reject the query of the listing endpoint inside \<^verbatim>\<open>try\<close>,
  which answers 500: a negative \<^verbatim>\<open>skip\<close> (the page and the limit are not checked),
  the empty condition \<^verbatim>\<open>base_price: {}\<close> left when no bound was read as a number,
  which is no number, and an element of \<^verbatim>\<open>$in\<close> that cannot be cast to a string.
\<close>

definition store_rejects :: "lib \<Rightarrow> filter_req \<Rightarrow> int \<Rightarrow> query \<Rightarrow> bool" where
  "store_rejects L rq skip q =
     (skip < 0
      \<or> q_base_price q = Some \<lparr>pr_gte = None, pr_lte = None\<rparr>
      \<or> (q_collections q \<noteq> None
          \<and> (case collection_values (f_collections rq) of
                Inl _ \<Rightarrow> False
              | Inr xs \<Rightarrow> \<not> list_all (\<lambda>v. cast_string L v \<noteq> None) xs))
      \<or> (q_sizes q \<noteq> None
          \<and> \<not> list_all (\<lambda>v. cast_string L v \<noteq> None) (as_array (the (f_size rq)))))"

definition list_build :: "lib \<Rightarrow> filter_req \<Rightarrow> world \<Rightarrow> outcome + built" where
  "list_build L rq w =
     and_then (int_or L (f_page rq) 1) (\<lambda>pageNum.
     and_then (int_or L (f_limit rq) 12) (\<lambda>limitNum.
     and_then (search_filter rq
                 (empty_query\<lparr>q_isVisible := Some True, q_isSoldOut := Some False\<rparr>,
                  ''PRODUCT_MESSAGES.PRODUCTS_FETCHED'')) (\<lambda>qm.
     and_then (category_filter L rq w qm) (\<lambda>qm.
     and_then (list_price_filter L rq qm) (\<lambda>qm.
     and_then (list_tags_filter rq qm) (\<lambda>qm.
     and_then (list_colors_filter L rq qm) (\<lambda>qm.
     and_then (list_brands_filter L rq qm) (\<lambda>qm.
     and_then (list_collections_filter L rq qm) (\<lambda>qm.
     and_then (list_size_filter L rq qm) (\<lambda>qm.
     and_then (sort_spec [''createdAt'', ''base_price'', ''rating'', ''viewCount'']
                 (f_sortBy rq) (f_sortOrder rq)) (\<lambda>sort.
     and_then (reject_if (store_rejects L rq ((pageNum - 1) * limitNum) (fst qm))
                 (Responded SERVER_ERROR ''PRODUCT_MESSAGES.SEARCH_FAILED'')) (\<lambda>_.
     Inr \<lparr>b_query = fst qm, b_sort = sort,
          b_skip = (pageNum - 1) * limitNum, b_limit = limitNum,
          b_message = snd qm\<rparr>))))))))))))"

definition getCustomerProducts :: "lib \<Rightarrow> filter_req \<Rightarrow> world \<Rightarrow> outcome \<times> product list" where
  "getCustomerProducts L rq w =
     (case list_build L rq w of
        Inl rejection \<Rightarrow> (rejection, [])
      | Inr b \<Rightarrow> (Responded OK (b_message b), filter (matches (b_query b)) (products w)))"

section \<open>Sample data\<close>

text \<open>
  A small catalogue on which the handlers are run: two categories, two colours, one
  brand, and one product with a single variant of colour
  \<^verbatim>\<open>cccccccccccccccccccccc01\<close> whose sizes have quantities 5 and 0. The library
  casts a string of 24 hexadecimal digits to the object id written with the same
  digits in lower case, and nothing else; it reads the numbers used below.
\<close>

definition is_hex :: "char \<Rightarrow> bool" where
  "is_hex c =
     (let n = (of_char c :: nat)
      in (48 \<le> n \<and> n \<le> 57) \<or> (97 \<le> n \<and> n \<le> 102) \<or> (65 \<le> n \<and> n \<le> 70))"

definition sample_lib :: lib where
  "sample_lib =
     \<lparr>castObjectId = (\<lambda>v. case v of
                           Str s \<Rightarrow> (if length s = 24 \<and> list_all is_hex s
                                     then Some (toLowerCase s) else None)
                         | Arr xs \<Rightarrow> None
                         | Obj kvs \<Rightarrow> None),
      castString = (\<lambda>v. None),
      parseFloat = map_of [(''50'', 50), (''10'', 10), (''-5'', - 5)],
      parseInt = map_of [(''1'', 1), (''2'', 2), (''12'', 12)],
      toNumber = map_of [(''50'', 50), (''10'', 10)],
      objToString = (\<lambda>c. ''[object Object]''),
      docToString = (\<lambda>c. ''{ _id: '' @ c @ '' }'')\<rparr>"

definition shirts_id :: oid where "shirts_id = ''aaaaaaaaaaaaaaaaaaaaaa01''"
definition hats_id :: oid where "hats_id = ''aaaaaaaaaaaaaaaaaaaaaa02''"
definition brand_id :: oid where "brand_id = ''bbbbbbbbbbbbbbbbbbbbbb01''"
definition red_id :: oid where "red_id = ''cccccccccccccccccccccc01''"
definition blue_id :: oid where "blue_id = ''cccccccccccccccccccccc02''"
definition shirt_id :: oid where "shirt_id = ''dddddddddddddddddddddd01''"
definition variant_id :: oid where "variant_id = ''eeeeeeeeeeeeeeeeeeeeee01''"
definition unknown_id :: oid where "unknown_id = ''eeeeeeeeeeeeeeeeeeeeee99''"
definition new_id :: oid where "new_id = ''dddddddddddddddddddddd02''"

lemmas sample_ids =
  shirts_id_def hats_id_def brand_id_def red_id_def blue_id_def shirt_id_def variant_id_def
  unknown_id_def new_id_def

definition sample_variant :: variant where
  "sample_variant =
     \<lparr>v_id = variant_id, v_color = Some red_id, v_price = Some 10,
      v_sizes = [\<lparr>sz_size = ''S'', sz_quantity = 5\<rparr>, \<lparr>sz_size = ''M'', sz_quantity = 0\<rparr>],
      v_images = [\<lparr>img_url = ''/Uploads/shirt.png'', img_public_id = ''shirt'',
                  img_alt = Alt ''front'', img_isPrimary = True\<rparr>]\<rparr>"

definition sample_product :: product where
  "sample_product =
     \<lparr>p_id = shirt_id, p_name = ''Red Shirt'', p_slug = ''red-shirt'', p_category = shirts_id,
      p_brand = brand_id, p_base_price = 10, p_description = ''A shirt'',
      p_variants = [sample_variant], p_isActive = True, p_tags = [''new''], p_videoUrl = [],
      p_isFeatured = False, p_isSoldOut = True, p_isVisible = True, p_specifications = [],
      p_collections = [], p_discount = 0\<rparr>"

definition sample_world :: world where
  "sample_world =
     \<lparr>products = [sample_product],
      categories = [\<lparr>cat_id = shirts_id, cat_slug = ''shirts'', cat_isActive = True,
                     cat_productCount = 3\<rparr>,
                    \<lparr>cat_id = hats_id, cat_slug = ''hats'', cat_isActive = True,
                     cat_productCount = 7\<rparr>],
      colors = [\<lparr>col_id = red_id, col_productCount = 2\<rparr>,
                \<lparr>col_id = blue_id, col_productCount = 4\<rparr>],
      brands = [brand_id],
      uploads_dir = True,
      uploads = []\<rparr>"

definition no_variant :: variant_in where
  "no_variant =
     \<lparr>in_id = None, in_color = CAbsent, in_price = None, in_sizes = None, in_images = None\<rparr>"

definition sample_create :: create_req where
  "sample_create =
     \<lparr>c_name = Some ''Red  shirt!'', c_category = Some shirts_id, c_brand = Some brand_id,
      c_base_price = Some ''50'', c_description = None,
      c_variants = Some [no_variant\<lparr>in_color := CStr blue_id\<rparr>],
      c_isActive = None, c_tags = None, c_videoUrl = None, c_isFeatured = None,
      c_isSoldOut = None, c_isVisible = None, c_specifications = None, c_collections = None,
      c_discount = None, c_files = None, c_imageAlt = (\<lambda>i j. None)\<rparr>"

definition sample_update :: update_req where
  "sample_update =
     \<lparr>u_name = None, u_category = None, u_brand = None, u_base_price = None,
      u_description = None, u_variants = VUndefined, u_isActive = FUndefined, u_tags = None,
      u_videoUrl = None, u_isFeatured = FUndefined, u_isSoldOut = FUndefined,
      u_isVisible = FUndefined, u_specifications = None, u_collections = None,
      u_discount = None, u_files = None, u_imageAlt = (\<lambda>i j. None)\<rparr>"

definition sample_filter :: filter_req where
  "sample_filter =
     \<lparr>f_search = None, f_category = None, f_size = None, f_colors = None, f_brands = None,
      f_collections = None, f_tags = None, f_minPrice = None, f_maxPrice = None,
      f_available = None, f_soldOut = None, f_page = None, f_limit = None,
      f_sortBy = None, f_sortOrder = None\<rparr>"

definition sample_fresh :: "nat \<Rightarrow> oid" where
  "sample_fresh n = ''ffffffffffffffffffffff0'' @ [char_of (48 + n)]"

text \<open>
  Update requests for the sample product. \<open>recolour\<close> moves it to the second category
  and gives its variant the second colour; \<open>stray\<close> is an incoming variant whose
  \<^verbatim>\<open>_id\<close> is well formed and belongs to no variant of the product, and \<open>ghost\<close> is
  one that also names a colour no colour document has.
\<close>

definition first_variant :: variant_in where
  "first_variant = no_variant\<lparr>in_id := Some variant_id, in_color := CStr blue_id\<rparr>"

definition recolour :: update_req where
  "recolour = sample_update\<lparr>u_category := Some hats_id, u_variants := VArray [first_variant]\<rparr>"

definition stray :: variant_in where
  "stray = no_variant\<lparr>in_id := Some unknown_id, in_price := Some 99\<rparr>"

definition ghost :: variant_in where
  "ghost = no_variant\<lparr>in_id := Some unknown_id, in_color := CStr unknown_id\<rparr>"

definition recoloured_world :: world where
  "recoloured_world =
     sample_world\<lparr>products := [sample_product\<lparr>p_category := hats_id,
                                 p_variants := [sample_variant\<lparr>v_color := Some blue_id\<rparr>]\<rparr>],
        categories := [\<lparr>cat_id = shirts_id, cat_slug = ''shirts'', cat_isActive = True,
                         cat_productCount = 2\<rparr>,
                       \<lparr>cat_id = hats_id, cat_slug = ''hats'', cat_isActive = True,
                         cat_productCount = 8\<rparr>],
        colors := [\<lparr>col_id = red_id, col_productCount = 1\<rparr>,
                   \<lparr>col_id = blue_id, col_productCount = 5\<rparr>]\<rparr>"

definition switch_off :: update_req where
  "switch_off = recolour\<lparr>u_isActive := FBool False, u_isFeatured := FStr ''true'',
                          u_isSoldOut := FBool True, u_isVisible := FStr ''false''\<rparr>"


section \<open>Basic facts\<close>

lemma and_then_Inl [simp]: "and_then (Inl e) f = Inl e"
  by (simp add: and_then_def)

lemma and_then_Inr [simp]: "and_then (Inr x) f = f x"
  by (simp add: and_then_def)

lemma reject_if_simps [simp]: "reject_if True e = Inl e" "reject_if False e = Inr ()"
  by (simp_all add: reject_if_def)

lemma and_then_reject_if: "and_then (reject_if c e) f = (if c then Inl e else f ())"
  by (simp add: reject_if_def)

lemma and_then_eq_Inr: "and_then m f = Inr y \<longleftrightarrow> (\<exists>x. m = Inr x \<and> f x = Inr y)"
  by (cases m) auto

lemma and_then_eq_Inl: "and_then m f = Inl e \<longleftrightarrow> m = Inl e \<or> (\<exists>x. m = Inr x \<and> f x = Inl e)"
  by (cases m) auto


lemma reject_if_eq_Inl: "reject_if c e = Inl e' \<longleftrightarrow> c \<and> e' = e"
  by (auto simp: reject_if_def)

lemma cast_id_eq_Inr: "cast_id L s e = Inr k \<longleftrightarrow> castObjectId L (Str s) = Some k"
  by (simp add: cast_id_def split: option.split)


lemma cast_id_Some [simp]: "castObjectId L (Str s) = Some k \<Longrightarrow> cast_id L s e = Inr k"
  by (simp add: cast_id_def)

lemma cast_ids_Nil [simp]: "cast_ids L [] e = Inr []"
  by (simp add: cast_ids_def)

lemma cast_ids_eq_Inr:
  "cast_ids L ss e = Inr ks \<longleftrightarrow>
     list_all (\<lambda>s. isValidObjectId L (Str s)) ss \<and> ks = map (\<lambda>s. the (castObjectId L (Str s))) ss"
  by (auto simp: cast_ids_def)


text \<open>Writes that carry the session leave the state outside it alone.\<close>

lemma leaves_Inr [simp]: "leaves view x (Inr t) \<longleftrightarrow> view (outside t) = x"
  by (simp add: leaves_def)

lemma leaves_Inl [simp]: "leaves view x (Inl (msg, t)) \<longleftrightarrow> view (outside t) = x"
  by (simp add: leaves_def)

lemma leaves_store_call:
  "view (outside t) = x \<Longrightarrow> leaves view x (store_call fails name True f t)"
  by (simp add: store_call_def perform_def)

lemma leaves_throw_if: "view (outside t) = x \<Longrightarrow> leaves view x (throw_if c name t)"
  by (simp add: throw_if_def)

lemma leaves_and_then:
  assumes "leaves view x m" and "\<And>t. view (outside t) = x \<Longrightarrow> leaves view x (f t)"
  shows "leaves view x (and_then m f)"
  using assms by (cases m) auto

lemma leaves_cast_id:
  assumes "view (outside t) = x" and "\<And>k. leaves view x (f k)"
  shows "leaves view x (and_then (cast_id L s (name, t)) f)"
  using assms by (simp add: cast_id_def split: option.split)

lemma leaves_cast_ids:
  assumes "view (outside t) = x" and "\<And>ks. leaves view x (f ks)"
  shows "leaves view x (and_then (cast_ids L ss (name, t)) f)"
  using assms by (simp add: cast_ids_def)

lemmas sample_defs =
  sample_ids sample_variant_def sample_product_def sample_world_def
  no_variant_def sample_create_def sample_update_def sample_filter_def sample_fresh_def
  first_variant_def recolour_def stray_def ghost_def recoloured_world_def switch_off_def

text \<open>The sample library on the sample ids.\<close>

lemma sample_casts:
  "castObjectId sample_lib (Str shirts_id) = Some shirts_id"
  "castObjectId sample_lib (Str hats_id) = Some hats_id"
  "castObjectId sample_lib (Str brand_id) = Some brand_id"
  "castObjectId sample_lib (Str red_id) = Some red_id"
  "castObjectId sample_lib (Str blue_id) = Some blue_id"
  "castObjectId sample_lib (Str shirt_id) = Some shirt_id"
  "castObjectId sample_lib (Str variant_id) = Some variant_id"
  "castObjectId sample_lib (Str unknown_id) = Some unknown_id"
  "castObjectId sample_lib (Str new_id) = Some new_id"
  by (simp_all add: sample_lib_def sample_ids is_hex_def toLowerCase_def lower_char_def
        is_upper_def)

lemmas sample_cast_simps [simp] = sample_casts sample_casts[unfolded sample_ids]

lemma sample_cast_other [simp]:
  "castObjectId sample_lib (Arr xs) = None" "castObjectId sample_lib (Obj kvs) = None"
  by (simp_all add: sample_lib_def)

lemma sample_lib_fields [simp]:
  "parseFloat sample_lib = map_of [(''50'', 50), (''10'', 10), (''-5'', - 5)]"
  "parseInt sample_lib = map_of [(''1'', 1), (''2'', 2), (''12'', 12)]"
  "toNumber sample_lib = map_of [(''50'', 50), (''10'', 10)]"
  "objToString sample_lib = (\<lambda>c. ''[object Object]'')"
  "docToString sample_lib = (\<lambda>c. ''{ _id: '' @ c @ '' }'')"
  "castString sample_lib = (\<lambda>v. None)"
  by (simp_all add: sample_lib_def)

lemmas store_defs =
  find_category_def find_color_def find_product_def colors_inc_def colors_in_def uniq_def
  truthy_def nullish_or_def category_count_def color_count_def

lemmas txn_defs =
  startTransaction_def perform_def commitTransaction_def abortTransaction_def store_call_def
  throw_if_def cast_id_def cast_ids_def isValidObjectId_def

section \<open>Properties of the slug normalisation\<close>

lemma alnum_not_hyphen: "is_alnum c \<Longrightarrow> \<not> is_hyphen c"
  by (auto simp: is_alnum_def is_hyphen_def Let_def)

lemma strip_trailing_Nil [simp]: "strip_trailing [] = []"
  by (simp add: strip_trailing_def)

lemma strip_trailing_Cons:
  "strip_trailing (c # cs) =
     (if is_hyphen c \<and> strip_trailing cs = [] then [] else c # strip_trailing cs)"
proof (cases "\<forall>x\<in>set cs. is_hyphen x")
  case True
  then have "dropWhile is_hyphen (rev cs @ [c]) = dropWhile is_hyphen [c]"
    by (intro dropWhile_append2) simp
  moreover from True have "dropWhile is_hyphen (rev cs) = []" by simp
  ultimately show ?thesis by (simp add: strip_trailing_def)
next
  case False
  then obtain x where x: "x \<in> set (rev cs)" "\<not> is_hyphen x" by auto
  then have "dropWhile is_hyphen (rev cs @ [c]) = dropWhile is_hyphen (rev cs) @ [c]"
    by (rule dropWhile_append1)
  moreover from x have "dropWhile is_hyphen (rev cs) \<noteq> []"
    by (metis dropWhile_eq_Nil_conv)
  ultimately show ?thesis by (simp add: strip_trailing_def)
qed

lemma hd_replace_runs:
  "cs \<noteq> [] \<Longrightarrow> is_alnum (hd cs) \<Longrightarrow> replace_runs cs \<noteq> [] \<and> is_alnum (hd (replace_runs cs))"
  by (cases cs) auto

lemma runs_collapsed_replace_runs: "runs_collapsed (replace_runs s)"
proof (induction s rule: replace_runs.induct)
  case 1
  show ?case by simp
next
  case (2 c cs)
  show ?case
  proof (cases "is_alnum c")
    case True
    with 2 show ?thesis by simp
  next
    case False
    let ?r = "dropWhile (\<lambda>d. \<not> is_alnum d) cs"
    have "replace_runs ?r = [] \<or> is_alnum (hd (replace_runs ?r))"
    proof (cases "?r = []")
      case True
      then have "replace_runs ?r = []" by (simp only: replace_runs.simps)
      then show ?thesis ..
    next
      case nonempty: False
      then have "is_alnum (hd ?r)" using hd_dropWhile[of "\<lambda>d. \<not> is_alnum d" cs] by blast
      with nonempty show ?thesis using hd_replace_runs[of ?r] by blast
    qed
    moreover have "runs_collapsed (replace_runs ?r)" using 2(2)[OF False] .
    ultimately show ?thesis using False by (simp add: is_hyphen_def)
  qed
qed

lemma runs_collapsed_dropWhile: "runs_collapsed s \<Longrightarrow> runs_collapsed (dropWhile is_hyphen s)"
  by (induction s) auto

lemma slug_word_strip_trailing:
  "runs_collapsed s \<Longrightarrow> slug_word True (strip_trailing s)
     \<and> (s \<noteq> [] \<longrightarrow> is_alnum (hd s) \<longrightarrow> slug_word False (strip_trailing s))"
proof (induction s)
  case Nil
  show ?case by simp
next
  case (Cons c cs)
  then have ih: "slug_word True (strip_trailing cs)"
    and ih2: "cs \<noteq> [] \<Longrightarrow> is_alnum (hd cs) \<Longrightarrow> slug_word False (strip_trailing cs)"
    and c: "is_alnum c \<or> (is_hyphen c \<and> (cs = [] \<or> is_alnum (hd cs)))" by auto
  show ?case
  proof (cases "is_alnum c")
    case True
    then show ?thesis using ih by (simp add: strip_trailing_Cons alnum_not_hyphen)
  next
    case False
    with c have h: "is_hyphen c" and cs: "cs = [] \<or> is_alnum (hd cs)" by auto
    show ?thesis
    proof (cases "cs = []")
      case True
      then show ?thesis using h False by (simp add: strip_trailing_Cons)
    next
      case nonempty: False
      with cs ih2 have "slug_word False (strip_trailing cs)" by auto
      then show ?thesis using h False by (simp add: strip_trailing_Cons)
    qed
  qed
qed

lemma slugify_shape: "matches_slug_pattern (slugify s) \<or> slugify s = []"
proof -
  let ?r = "dropWhile is_hyphen (replace_runs (toLowerCase s))"
  have rc: "runs_collapsed ?r"
    by (intro runs_collapsed_dropWhile runs_collapsed_replace_runs)
  show ?thesis
  proof (cases "?r = []")
    case True
    have "slugify s = strip_trailing ?r" by (simp only: slugify_def strip_hyphens_def)
    also have "\<dots> = []" by (simp only: True strip_trailing_Nil)
    finally show ?thesis ..
  next
    case False
    have "\<not> is_hyphen (hd ?r)" using False hd_dropWhile[of is_hyphen] by blast
    moreover from rc False have "is_alnum (hd ?r) \<or> is_hyphen (hd ?r)" by (cases ?r) auto
    ultimately have "is_alnum (hd ?r)" by blast
    with slug_word_strip_trailing[OF rc] False
    show ?thesis by (simp add: slugify_def strip_hyphens_def matches_slug_pattern_def)
  qed
qed

lemma lower_char_fix: "is_alnum c \<or> is_hyphen c \<Longrightarrow> lower_char c = c"
  by (auto simp: is_alnum_def is_hyphen_def lower_char_def is_upper_def Let_def)

lemma slug_word_chars: "slug_word b s \<Longrightarrow> \<forall>c\<in>set s. is_alnum c \<or> is_hyphen c"
  by (induction b s rule: slug_word.induct) (auto split: if_splits)

lemma slug_word_replace_runs: "slug_word b s \<Longrightarrow> replace_runs s = s"
proof (induction b s rule: slug_word.induct)
  case (1 started)
  show ?case by simp
next
  case (2 started c cs)
  show ?case
  proof (cases "is_alnum c")
    case True
    with 2 show ?thesis by simp
  next
    case False
    with 2 have h: "is_hyphen c" and sw: "slug_word False cs" and ih: "replace_runs cs = cs"
      by auto
    from sw have "cs \<noteq> [] \<and> is_alnum (hd cs)" by (cases cs) (auto split: if_splits)
    then have "dropWhile (\<lambda>d. \<not> is_alnum d) cs = cs" by (cases cs) auto
    with False h ih show ?thesis by (simp add: is_hyphen_def)
  qed
qed

lemma slug_word_strip_fix: "slug_word b s \<Longrightarrow> strip_trailing s = s"
proof (induction b s rule: slug_word.induct)
  case (1 started)
  show ?case by simp
next
  case (2 started c cs)
  show ?case
  proof (cases "is_alnum c")
    case True
    with 2 show ?thesis by (simp add: strip_trailing_Cons alnum_not_hyphen)
  next
    case False
    with 2 have h: "is_hyphen c" and sw: "slug_word False cs" and ih: "strip_trailing cs = cs"
      by auto
    from sw have "cs \<noteq> []" by (cases cs) auto
    with ih h show ?thesis by (simp add: strip_trailing_Cons)
  qed
qed

lemma slugify_fix: "matches_slug_pattern t \<Longrightarrow> slugify t = t"
proof -
  assume m: "matches_slug_pattern t"
  then have sw: "slug_word False t" by (simp add: matches_slug_pattern_def)
  have "toLowerCase t = t"
    unfolding toLowerCase_def using slug_word_chars[OF sw] by (simp add: map_idI lower_char_fix)
  moreover have "replace_runs t = t" using sw by (rule slug_word_replace_runs)
  moreover have "dropWhile is_hyphen t = t"
    using sw by (cases t) (auto simp: alnum_not_hyphen split: if_splits)
  moreover have "strip_trailing t = t" using sw by (rule slug_word_strip_fix)
  ultimately show ?thesis by (simp add: slugify_def strip_hyphens_def)
qed

lemma slugify_Nil: "slugify [] = []"
  by (simp add: slugify_def strip_hyphens_def toLowerCase_def)

lemmas slug_eval =
  slugify_def strip_hyphens_def strip_trailing_def toLowerCase_def lower_char_def
  is_upper_def is_alnum_def is_hyphen_def matches_slug_pattern_def

text \<open>
  C8. For every input string the normalised slug matches
  \<^verbatim>\<open>^[a-z0-9]+(-[a-z0-9]+)*$\<close> or is empty, and normalising it again returns it
  unchanged.
\<close>

theorem slugify_pattern_idempotent:
  "(matches_slug_pattern (slugify s) \<or> slugify s = []) \<and> slugify (slugify s) = slugify s"
  using slugify_shape[of s] slugify_fix[of "slugify s"] slugify_Nil by auto

theorem slugify_pattern_idempotent_witness:
  "slugify ''  Hello, World!! 42 '' = ''hello-world-42''
   \<and> matches_slug_pattern ''hello-world-42''
   \<and> slugify ''hello-world-42'' = ''hello-world-42''"
  using slugify_pattern_idempotent[of "''  Hello, World!! 42 ''"]
  by (simp add: slug_eval)

section \<open>Properties of product creation\<close>








text \<open>
  C7. A create request whose parsed variant list is empty is answered 422 "At least one
  variant is required", a client error, whatever its other fields are, and the state
  is the one before the request.
\<close>

theorem create_rejects_empty_variants:
  "create_parse_variants (c_variants rq) = [] \<Longrightarrow>
     createProduct L faults pid fresh rq w
       = (Responded UNPROCESSABLE_ENTITY ''At least one variant is required'', w)
     \<and> is_client_error UNPROCESSABLE_ENTITY"
  by (simp add: createProduct_def create_checks_def is_client_error_def)

theorem create_rejects_empty_variants_witness:
  "create_parse_variants
     (c_variants (sample_create\<lparr>c_name := Some ''Blue Hat'', c_variants := Some []\<rparr>)) = []
   \<and> createProduct sample_lib {} new_id sample_fresh
        (sample_create\<lparr>c_name := Some ''Blue Hat'', c_variants := Some []\<rparr>) sample_world
       = (Responded UNPROCESSABLE_ENTITY ''At least one variant is required'', sample_world)"
  using create_rejects_empty_variants
          [of "sample_create\<lparr>c_name := Some ''Blue Hat'', c_variants := Some []\<rparr>"
              sample_lib "{}" new_id sample_fresh sample_world]
  by (simp add: create_parse_variants_def sample_create_def)


lemma sample_slug_taken:
  "find (\<lambda>p. p_slug p = slugify ''Red  shirt!'') (products sample_world) \<noteq> None"
  by (simp add: sample_world_def sample_product_def slug_eval)




text \<open>
  A category is found by its object id, however the request writes it: with the id of
  the first category in upper case the request reaches the slug lookup and is answered
  409.
\<close>

lemma create_category_other_case:
  "createProduct sample_lib {} new_id sample_fresh
        (sample_create\<lparr>c_category := Some ''AAAAAAAAAAAAAAAAAAAAAA01''\<rparr>) sample_world
       = (Responded CONFLICT ''PRODUCT_MESSAGES.PRODUCT_EXISTS'', sample_world)"
proof -
  have cast: "castObjectId sample_lib (Str ''AAAAAAAAAAAAAAAAAAAAAA01'') = Some ''aaaaaaaaaaaaaaaaaaaaaa01''"
    by (simp add: sample_lib_def is_hex_def toLowerCase_def lower_char_def is_upper_def)
  show ?thesis
    using sample_slug_taken
    by (simp add: cast createProduct_def create_checks_def create_parse_variants_def
          create_color_ids_def sample_defs store_defs txn_defs)
qed


section \<open>Properties of product update\<close>

lemma category_count_inc:
  "category_count k (category_inc k' d cs)
     = (if k = k' then map_option (\<lambda>n. n + d) (category_count k cs) else category_count k cs)"
  by (induction cs) (auto simp: category_count_def find_category_def)

lemma find_category_inc_None:
  "find_category k (category_inc k' d cs) = None \<longleftrightarrow> find_category k cs = None"
  by (induction cs) (auto simp: find_category_def)

lemma find_replace_product:
  "find_product k ps = Some p \<Longrightarrow> p_id q = k \<Longrightarrow> find_product k (replace_product k q ps) = Some q"
  by (induction ps) (auto simp: find_product_def)

lemma find_product_id: "find_product k ps = Some p \<Longrightarrow> p_id p = k"
  by (induction ps) (auto simp: find_product_def split: if_splits)

lemma validate_variants_400:
  "validate_variants L vs = Some r \<Longrightarrow> \<exists>msg. r = Responded BAD_REQUEST msg"
  by (induction vs) (auto split: if_splits)

lemma update_checks_400:
  "update_checks L w product field = Inl r \<Longrightarrow> \<exists>msg. r = Responded BAD_REQUEST msg"
  by (cases field)
     (auto simp: update_checks_def update_parse_variants_def and_then_reject_if
        dest: validate_variants_400 split: option.splits if_splits)

lemma update_variants_400:
  "update_variants L fresh rq product w variants = Inl r \<Longrightarrow> \<exists>msg. r = Responded BAD_REQUEST msg"
  by (auto simp: update_variants_def Let_def and_then_reject_if split: if_splits)

lemma update_slug_409:
  "update_slug pid rq product w = Inl r \<Longrightarrow> r = Responded CONFLICT ''PRODUCT_MESSAGES.PRODUCT_EXISTS''"
  by (auto simp: update_slug_def Let_def and_then_reject_if split: if_splits)

lemma update_prepare_not_OK:
  "and_then (update_checks L w product field) (\<lambda>variants.
     and_then (update_variants L fresh rq product w variants) (\<lambda>updatedVariants.
     and_then (update_slug pid rq product w) (\<lambda>slug. Inr (updatedVariants, slug)))) = Inl r
   \<Longrightarrow> r \<noteq> Responded OK msg"
  apply (cases "update_checks L w product field")
   apply (auto dest: update_checks_400)[1]
  subgoal for variants
    apply (cases "update_variants L fresh rq product w variants")
     apply (auto dest: update_variants_400)[1]
    apply (cases "update_slug pid rq product w")
     apply (auto dest: update_slug_409)
    done
  done

text \<open>The atomic unit writes in the session only.\<close>

lemma update_category_counts_leaves:
  "view (outside t) = x \<Longrightarrow> leaves view x (update_category_counts L faults rq product populated t)"
  unfolding update_category_counts_def
  by (auto intro!: leaves_and_then leaves_store_call leaves_throw_if leaves_cast_id)

lemma update_many_colors_leaves:
  "view (outside t) = x \<Longrightarrow> leaves view x (update_many_colors L fault ids d t)"
  unfolding update_many_colors_def
  by (auto intro!: leaves_store_call leaves_cast_ids)

lemma update_color_counts_leaves:
  "view (outside t) = x \<Longrightarrow> leaves view x (update_color_counts L faults old new t)"
  unfolding update_color_counts_def Let_def
  by (auto intro!: leaves_and_then update_many_colors_leaves)

lemma update_document_leaves:
  "view (outside t) = x \<Longrightarrow> leaves view x (update_document L faults pid rq product d uv t)"
  unfolding update_document_def
  by (auto intro!: leaves_store_call leaves_cast_id)

lemma update_txn_leaves:
  "leaves view (view w) (update_txn L faults pid rq product slug uv tags specs colls w)"
  unfolding update_txn_def Let_def
  by (auto intro!: leaves_and_then leaves_throw_if update_category_counts_leaves
        update_color_counts_leaves update_document_leaves simp: startTransaction_def)

lemma update_txn_aborted:
  "update_txn L faults pid rq product slug uv tags specs colls w = Inl (msg, t)
     \<Longrightarrow> abortTransaction t = w"
  using update_txn_leaves[of "\<lambda>w. w" w L faults pid rq product slug uv tags specs colls]
  by (simp add: abortTransaction_def)

lemma updateProduct_cases:
  "(snd (updateProduct L faults fresh pid rq w) = w
      \<and> (\<forall>msg. fst (updateProduct L faults fresh pid rq w) \<noteq> Responded OK msg))
   \<or> (\<exists>k product uv slug t.
         castObjectId L (Str pid) = Some k
         \<and> find_product k (products w) = Some product
         \<and> update_txn L faults pid rq product slug uv
              (update_parse_labels (p_tags product) (u_tags rq))
              (nullish_or (u_specifications rq) (p_specifications product))
              (update_parse_labels (p_collections product) (u_collections rq)) w = Inr t
         \<and> updateProduct L faults fresh pid rq w
              = (Responded OK ''PRODUCT_MESSAGES.PRODUCT_UPDATED'', commitTransaction t))"
proof (cases "castObjectId L (Str pid)")
  case None
  then show ?thesis by (simp add: updateProduct_def)
next
  case valid: (Some k)
  show ?thesis
  proof (cases "find_product k (products w)")
    case None
    with valid show ?thesis by (simp add: updateProduct_def)
  next
    case (Some product)
    let ?prep = "and_then (update_checks L w product (u_variants rq)) (\<lambda>variants.
        and_then (update_variants L fresh rq product w variants) (\<lambda>updatedVariants.
        and_then (update_slug pid rq product w) (\<lambda>slug. Inr (updatedVariants, slug))))"
    show ?thesis
    proof (cases ?prep)
      case (Inl r)
      then have "\<And>msg. r \<noteq> Responded OK msg" by (rule update_prepare_not_OK)
      with valid Some Inl show ?thesis by (simp add: updateProduct_def)
    next
      case (Inr pr)
      obtain uv slug where pr: "pr = (uv, slug)" by (cases pr)
      let ?txn = "update_txn L faults pid rq product slug uv
              (update_parse_labels (p_tags product) (u_tags rq))
              (nullish_or (u_specifications rq) (p_specifications product))
              (update_parse_labels (p_collections product) (u_collections rq)) w"
      show ?thesis
      proof (cases ?txn)
        case failed: (Inl e)
        obtain msg t where e: "e = (msg, t)" by (cases e)
        from failed e have "abortTransaction t = w" by (simp add: update_txn_aborted)
        with valid Some Inr pr failed e show ?thesis by (simp add: updateProduct_def)
      next
        case committed: (Inr t)
        with valid Some Inr pr have
          "updateProduct L faults fresh pid rq w
             = (Responded OK ''PRODUCT_MESSAGES.PRODUCT_UPDATED'', commitTransaction t)"
          by (simp add: updateProduct_def)
        with valid Some committed show ?thesis by blast
      qed
    qed
  qed
qed

text \<open>What the statements of the atomic unit leave in the session.\<close>

lemma update_category_counts_Inr:
  assumes "update_category_counts L faults rq product populated t = Inr t'"
  shows "(truthy (u_category rq) \<longrightarrow> populated)
     \<and> products (inside t') = products (inside t)
     \<and> (if category_changed rq product
         then \<exists>b. castObjectId L (Str (the (u_category rq))) = Some b
                \<and> categories (inside t')
                    = category_inc b 1 (category_inc (p_category product) (- 1) (categories (inside t)))
         else categories (inside t') = categories (inside t))"
  using assms
  by (auto simp: update_category_counts_def and_then_eq_Inr throw_if_def store_call_def
        perform_def cast_id_eq_Inr split: if_splits)

lemma update_many_colors_Inr:
  "update_many_colors L fault ids d t = Inr t' \<Longrightarrow>
     products (inside t') = products (inside t) \<and> categories (inside t') = categories (inside t)"
  by (auto simp: update_many_colors_def and_then_eq_Inr store_call_def perform_def
        split: if_splits)

lemma update_color_counts_Inr:
  "update_color_counts L faults old new t = Inr t' \<Longrightarrow>
     products (inside t') = products (inside t) \<and> categories (inside t') = categories (inside t)"
  by (auto simp: update_color_counts_def Let_def and_then_eq_Inr dest!: update_many_colors_Inr)

lemma update_document_Inr:
  "update_document L faults pid rq product d uv t = Inr t' \<Longrightarrow>
     categories (inside t') = categories (inside t)
     \<and> (\<exists>k. castObjectId L (Str pid) = Some k
            \<and> products (inside t') = replace_product k d (products (inside t)))"
  by (auto simp: update_document_def and_then_eq_Inr store_call_def perform_def cast_id_eq_Inr
        split: if_splits)

lemma throw_if_eq_Inr: "throw_if c name t = Inr t' \<longleftrightarrow> \<not> c \<and> t' = t"
  by (auto simp: throw_if_def)

lemma update_txn_Inr:
  assumes "update_txn L faults pid rq product slug uv tags specs colls w = Inr t"
  shows "(truthy (u_category rq) \<longrightarrow> find_category (p_category product) (categories w) \<noteq> None)
     \<and> (\<exists>k. castObjectId L (Str pid) = Some k
            \<and> products (inside t)
                = replace_product k (update_data L rq product slug uv tags specs colls) (products w))
     \<and> (if category_changed rq product
         then \<exists>b. castObjectId L (Str (the (u_category rq))) = Some b
                \<and> categories (inside t)
                    = category_inc b 1 (category_inc (p_category product) (- 1) (categories w))
         else categories (inside t) = categories w)"
proof -
  from assms obtain t1 t2 t3 where
    1: "update_category_counts L faults rq product
          (find_category (p_category product) (categories w) \<noteq> None) (startTransaction w) = Inr t1"
    and 2: "update_color_counts L faults
          (uniq (filter (\<lambda>c. c \<noteq> [])
             (List.map_filter (populated_color (colors w)) (p_variants product))))
          (uniq (filter (\<lambda>c. c \<noteq> [])
             (List.map_filter (\<lambda>v. color_toString L (mv_color v)) uv))) t1 = Inr t2"
    and 3: "update_document L faults pid rq product
          (update_data L rq product slug uv tags specs colls) uv t2 = Inr t3"
    and 4: "t = t3"
    by (auto simp: update_txn_def Let_def and_then_eq_Inr throw_if_eq_Inr)
  note a = update_category_counts_Inr[OF 1]
  note b = update_color_counts_Inr[OF 2]
  note c = update_document_Inr[OF 3]
  have start: "products (inside (startTransaction w)) = products w"
    "categories (inside (startTransaction w)) = categories w"
    by (simp_all add: startTransaction_def)
  from a have A: "truthy (u_category rq) \<longrightarrow> find_category (p_category product) (categories w) \<noteq> None"
    by blast
  from a b c have P: "\<exists>k. castObjectId L (Str pid) = Some k
            \<and> products (inside t)
                = replace_product k (update_data L rq product slug uv tags specs colls) (products w)"
    by (auto simp: 4 start)
  have C: "if category_changed rq product
         then \<exists>b. castObjectId L (Str (the (u_category rq))) = Some b
                \<and> categories (inside t)
                    = category_inc b 1 (category_inc (p_category product) (- 1) (categories w))
         else categories (inside t) = categories w"
  proof (cases "category_changed rq product")
    case True
    with a obtain b' where "castObjectId L (Str (the (u_category rq))) = Some b'"
      "categories (inside t1)
         = category_inc b' 1 (category_inc (p_category product) (- 1) (categories w))"
      by (auto simp: start)
    with b c True show ?thesis by (simp add: 4)
  next
    case False
    with a b c show ?thesis by (simp add: 4 start)
  qed
  from A P C show ?thesis by blast
qed

lemmas update_eval =
  updateProduct_def update_checks_def update_parse_variants_def parse_variant_def
  update_color_ids_def checked_colors_def update_variants_def merge_variants_def merge_step_def
  patch_variant_def new_variant_def to_object_def as_incoming_def populated_color_def
  update_slug_def update_txn_def update_category_counts_def category_changed_def
  update_color_counts_def update_many_colors_def update_document_def update_data_def cast_or_def
  store_variant_def update_parse_labels_def says_true_def says_false_def number_or_def
  has_images_def update_attach_def Let_def


lemma recolour_commits:
  "updateProduct sample_lib {} sample_fresh shirt_id recolour sample_world
     = (Responded OK ''PRODUCT_MESSAGES.PRODUCT_UPDATED'', recoloured_world)"
  by (simp add: update_eval and_then_reject_if sample_defs store_defs txn_defs)


text \<open>
  The id of the product's own category written in upper case is another string and
  the same category: both calls reach the same document, and its counter is what it
  was.
\<close>

lemma same_category_other_case:
  "castObjectId sample_lib (Str ''AAAAAAAAAAAAAAAAAAAAAA01'') = Some (p_category sample_product)
   \<and> ''AAAAAAAAAAAAAAAAAAAAAA01'' \<noteq> p_category sample_product
   \<and> fst (updateProduct sample_lib {} sample_fresh shirt_id
              (recolour\<lparr>u_category := Some ''AAAAAAAAAAAAAAAAAAAAAA01''\<rparr>) sample_world)
       = Responded OK ''PRODUCT_MESSAGES.PRODUCT_UPDATED''
   \<and> category_count shirts_id
        (categories (snd (updateProduct sample_lib {} sample_fresh shirt_id
                            (recolour\<lparr>u_category := Some ''AAAAAAAAAAAAAAAAAAAAAA01''\<rparr>)
                            sample_world)))
       = Some 3"
proof -
  have cast: "castObjectId sample_lib (Str ''AAAAAAAAAAAAAAAAAAAAAA01'') = Some ''aaaaaaaaaaaaaaaaaaaaaa01''"
    by (simp add: sample_lib_def is_hex_def toLowerCase_def lower_char_def is_upper_def)
  show ?thesis
    by (simp add: cast update_eval and_then_reject_if sample_defs store_defs txn_defs)
qed


lemma update_data_flags:
  "p_id (update_data L rq p slug uv tags specs colls) = p_id p"
  "p_isActive (update_data L rq p slug uv tags specs colls) = (says_true (u_isActive rq) \<or> p_isActive p)"
  "p_isFeatured (update_data L rq p slug uv tags specs colls) = (says_true (u_isFeatured rq) \<or> p_isFeatured p)"
  "p_isVisible (update_data L rq p slug uv tags specs colls) = (says_true (u_isVisible rq) \<or> p_isVisible p)"
  "p_isSoldOut (update_data L rq p slug uv tags specs colls) = (\<not> says_false (u_isSoldOut rq) \<and> p_isSoldOut p)"
  by (simp_all add: update_data_def)

text \<open>
  C9. After any update request the stored \<^verbatim>\<open>isActive\<close>, \<^verbatim>\<open>isFeatured\<close> and
  \<^verbatim>\<open>isVisible\<close> are still true if they were, and are what they were unless the
  request says \<^verbatim>\<open>true\<close> or \<^verbatim>\<open>'true'\<close>; \<^verbatim>\<open>isSoldOut\<close> is still false if it was,
  and is what it was unless the request says \<^verbatim>\<open>false\<close> or \<^verbatim>\<open>'false'\<close>.
\<close>

theorem update_flags_one_directional:
  assumes "castObjectId L (Str pid) = Some k" and "find_product k (products w) = Some p"
  shows "\<exists>p'. find_product k (products (snd (updateProduct L faults fresh pid rq w))) = Some p'
     \<and> (p_isActive p \<longrightarrow> p_isActive p')
     \<and> (\<not> says_true (u_isActive rq) \<longrightarrow> p_isActive p' = p_isActive p)
     \<and> (p_isFeatured p \<longrightarrow> p_isFeatured p')
     \<and> (\<not> says_true (u_isFeatured rq) \<longrightarrow> p_isFeatured p' = p_isFeatured p)
     \<and> (p_isVisible p \<longrightarrow> p_isVisible p')
     \<and> (\<not> says_true (u_isVisible rq) \<longrightarrow> p_isVisible p' = p_isVisible p)
     \<and> (\<not> p_isSoldOut p \<longrightarrow> \<not> p_isSoldOut p')
     \<and> (\<not> says_false (u_isSoldOut rq) \<longrightarrow> p_isSoldOut p' = p_isSoldOut p)"
proof -
  let ?r = "updateProduct L faults fresh pid rq w"
  from updateProduct_cases[of L faults fresh pid rq w]
  consider (unchanged) "snd ?r = w"
    | (committed) k' product' uv slug t where
        "castObjectId L (Str pid) = Some k'"
        "find_product k' (products w) = Some product'"
        "update_txn L faults pid rq product' slug uv
              (update_parse_labels (p_tags product') (u_tags rq))
              (nullish_or (u_specifications rq) (p_specifications product'))
              (update_parse_labels (p_collections product') (u_collections rq)) w = Inr t"
        "?r = (Responded OK ''PRODUCT_MESSAGES.PRODUCT_UPDATED'', commitTransaction t)"
    by blast
  then show ?thesis
  proof cases
    case unchanged
    with assms show ?thesis by simp
  next
    case committed
    with assms have same: "product' = p" by simp
    let ?d = "update_data L rq p slug uv
              (update_parse_labels (p_tags p) (u_tags rq))
              (nullish_or (u_specifications rq) (p_specifications p))
              (update_parse_labels (p_collections p) (u_collections rq))"
    from update_txn_Inr[OF committed(3)] same assms(1)
    have "products (inside t) = replace_product k ?d (products w)"
      by auto
    moreover have "p_id ?d = k" using find_product_id[OF assms(2)] by (simp add: update_data_flags)
    ultimately have "find_product k (products (inside t)) = Some ?d"
      using find_replace_product[OF assms(2)] by simp
    then show ?thesis using committed(4) by (simp add: update_data_flags commitTransaction_def)
  qed
qed

lemma switch_off_commits:
  "updateProduct sample_lib {} sample_fresh shirt_id switch_off sample_world
     = (Responded OK ''PRODUCT_MESSAGES.PRODUCT_UPDATED'',
        recoloured_world\<lparr>products := [sample_product\<lparr>p_category := hats_id,
                                 p_variants := [sample_variant\<lparr>v_color := Some blue_id\<rparr>],
                                 p_isFeatured := True\<rparr>]\<rparr>)"
  by (simp add: update_eval and_then_reject_if sample_defs store_defs txn_defs)

theorem update_flags_one_directional_witness:
  "castObjectId sample_lib (Str shirt_id) = Some shirt_id
   \<and> find_product shirt_id (products sample_world) = Some sample_product
   \<and> p_isActive sample_product \<and> u_isActive switch_off = FBool False
   \<and> p_isSoldOut sample_product \<and> u_isSoldOut switch_off = FBool True
   \<and> fst (updateProduct sample_lib {} sample_fresh shirt_id switch_off sample_world)
       = Responded OK ''PRODUCT_MESSAGES.PRODUCT_UPDATED''
   \<and> map (\<lambda>p. (p_isActive p, p_isFeatured p, p_isVisible p, p_isSoldOut p))
         (products (snd (updateProduct sample_lib {} sample_fresh shirt_id switch_off sample_world)))
       = [(True, True, True, True)]"
  using update_flags_one_directional
          [of sample_lib shirt_id shirt_id sample_world sample_product "{}" sample_fresh
              switch_off]
        switch_off_commits
  by (simp add: sample_defs store_defs)

lemma patch_first_ids: "map mv_id (patch_first k v es) = map mv_id es"
  by (induction es) (auto simp: patch_variant_def)

lemma patch_first_unmatched: "k \<notin> mv_id ` set es \<Longrightarrow> patch_first k v es = es"
  by (induction es) auto

lemma merge_step_ids: "map mv_id (fst (merge_step L fresh acc v)) = map mv_id (fst acc)"
  by (simp add: merge_step_def patch_first_ids)

lemma foldl_merge_ids:
  "map mv_id (fst (foldl (merge_step L fresh) acc vs)) = map mv_id (fst acc)"
  by (induction vs arbitrary: acc) (simp_all add: merge_step_ids)

lemma merge_step_unmatched:
  "truthy (in_id v) \<Longrightarrow> isValidObjectId L (Str (the (in_id v)))
     \<Longrightarrow> the (in_id v) \<notin> mv_id ` set (fst acc) \<Longrightarrow> merge_step L fresh acc v = acc"
  by (simp add: merge_step_def patch_first_unmatched)

lemma merge_variants_unmatched:
  assumes "truthy (in_id v)" and "isValidObjectId L (Str (the (in_id v)))"
    and "the (in_id v) \<notin> mv_id ` set existing"
  shows "merge_variants L fresh existing (vs1 @ v # vs2) = merge_variants L fresh existing (vs1 @ vs2)"
proof -
  let ?acc = "foldl (merge_step L fresh) (existing, []) vs1"
  have "set (map mv_id (fst ?acc)) = set (map mv_id existing)"
    by (simp only: foldl_merge_ids fst_conv)
  then have "the (in_id v) \<notin> mv_id ` set (fst ?acc)" using assms(3) by simp
  then have "merge_step L fresh ?acc v = ?acc" using assms(1,2) by (rule merge_step_unmatched[rotated 2])
  then show ?thesis by (simp add: merge_variants_def)
qed

lemma validate_variants_append:
  "validate_variants L (xs @ ys)
     = (case validate_variants L xs of Some r \<Rightarrow> Some r | None \<Rightarrow> validate_variants L ys)"
  by (induction xs) auto

lemma validate_variants_drop:
  "validate_variants L (vs1 @ v # vs2) = None \<Longrightarrow> validate_variants L (vs1 @ vs2) = None"
  by (auto simp: validate_variants_append split: option.splits if_splits)

lemma update_color_ids_append:
  "update_color_ids L (xs @ ys) = update_color_ids L xs @ update_color_ids L ys"
  by (simp add: update_color_ids_def List.map_filter_def)

lemma checked_colors_append:
  "checked_colors L (xs @ ys) = checked_colors L xs @ checked_colors L ys"
  by (simp add: checked_colors_def update_color_ids_append)

lemma checked_colors_length: "length (update_color_ids L vs) = length (checked_colors L vs)"
  by (simp add: checked_colors_def)

lemma colors_in_length:
  assumes "distinct (map col_id cs)"
  shows "length (colors_in ks cs) = card (set ks \<inter> col_id ` set cs)"
proof -
  let ?hit = "filter (\<lambda>k. k \<in> set ks) (map col_id cs)"
  have "?hit = map col_id (colors_in ks cs)"
    by (simp add: colors_in_def filter_map o_def)
  then have "length (colors_in ks cs) = length ?hit" by simp
  also have "\<dots> = card (set ?hit)"
  proof -
    have "distinct ?hit" using assms by (rule distinct_filter)
    then show ?thesis by (rule distinct_card[symmetric])
  qed
  also have "set ?hit = set ks \<inter> col_id ` set cs"
    by auto
  finally show ?thesis .
qed

lemma colors_check_iff:
  assumes "distinct (map col_id cs)"
  shows "length (colors_in ks cs) = length ks \<longleftrightarrow> distinct ks \<and> set ks \<subseteq> col_id ` set cs"
proof
  assume eq: "length (colors_in ks cs) = length ks"
  have le1: "card (set ks \<inter> col_id ` set cs) \<le> card (set ks)"
    by (intro card_mono) auto
  have le2: "card (set ks) \<le> length ks" by (rule card_length)
  from eq have c: "card (set ks \<inter> col_id ` set cs) = length ks"
    by (simp add: colors_in_length[OF assms])
  with le1 le2 have d: "card (set ks) = length ks" and e: "card (set ks \<inter> col_id ` set cs) = card (set ks)"
    by auto
  from d have "distinct ks" by (rule card_distinct)
  moreover from e have "set ks \<inter> col_id ` set cs = set ks"
    by (intro card_subset_eq) auto
  ultimately show "distinct ks \<and> set ks \<subseteq> col_id ` set cs" by auto
next
  assume "distinct ks \<and> set ks \<subseteq> col_id ` set cs"
  then have "set ks \<inter> col_id ` set cs = set ks" and "card (set ks) = length ks"
    by (auto simp: distinct_card)
  then show "length (colors_in ks cs) = length ks"
    by (simp add: colors_in_length[OF assms])
qed

lemma colors_check_drop:
  assumes "distinct (map col_id cs)"
    and "length (colors_in (checked_colors L (xs @ v # ys)) cs) = length (update_color_ids L (xs @ v # ys))"
  shows "length (colors_in (checked_colors L (xs @ ys)) cs) = length (update_color_ids L (xs @ ys))"
proof -
  have split: "checked_colors L (xs @ v # ys)
      = checked_colors L xs @ checked_colors L [v] @ checked_colors L ys"
    using checked_colors_append[of L xs "v # ys"] checked_colors_append[of L "[v]" ys] by simp
  from assms(2) have "distinct (checked_colors L (xs @ v # ys))
      \<and> set (checked_colors L (xs @ v # ys)) \<subseteq> col_id ` set cs"
    by (simp only: checked_colors_length colors_check_iff[OF assms(1)])
  then have "distinct (checked_colors L xs @ checked_colors L [v] @ checked_colors L ys)
      \<and> set (checked_colors L xs @ checked_colors L [v] @ checked_colors L ys)
          \<subseteq> col_id ` set cs"
    by (simp only: split)
  then have "distinct (checked_colors L (xs @ ys))
      \<and> set (checked_colors L (xs @ ys)) \<subseteq> col_id ` set cs"
    unfolding checked_colors_append by auto
  then show ?thesis by (simp only: checked_colors_length colors_check_iff[OF assms(1)])
qed

lemma parse_variant_id [simp]: "in_id (parse_variant v) = in_id v"
  by (simp add: parse_variant_def)

lemma update_checks_array:
  "update_checks L w product (VArray vs) = Inr parsed \<longleftrightarrow>
     validate_variants L vs = None
     \<and> length (colors_in (checked_colors L (map parse_variant vs)) (colors w))
         = length (update_color_ids L (map parse_variant vs))
     \<and> parsed = map parse_variant vs"
  by (auto simp: update_checks_def update_parse_variants_def and_then_reject_if
        split: option.splits)

lemma update_checks_json:
  "update_checks L w product (VJson vs) = Inr parsed \<longleftrightarrow>
     length (colors_in (checked_colors L (map parse_variant vs)) (colors w))
         = length (update_color_ids L (map parse_variant vs))
     \<and> parsed = map parse_variant vs"
  by (auto simp: update_checks_def update_parse_variants_def and_then_reject_if)

lemma update_checks_drop:
  assumes "shape = VArray \<or> shape = VJson"
    and "distinct (map col_id (colors w))"
    and "update_checks L w product (shape (vs1 @ v # vs2)) = Inr parsed"
  shows "parsed = map parse_variant (vs1 @ v # vs2)
     \<and> update_checks L w product (shape (vs1 @ vs2)) = Inr (map parse_variant (vs1 @ vs2))"
proof -
  have drop: "length (colors_in (checked_colors L (map parse_variant (vs1 @ v # vs2))) (colors w))
         = length (update_color_ids L (map parse_variant (vs1 @ v # vs2)))
      \<Longrightarrow> length (colors_in (checked_colors L (map parse_variant (vs1 @ vs2))) (colors w))
         = length (update_color_ids L (map parse_variant (vs1 @ vs2)))"
    using colors_check_drop[OF assms(2), of L "map parse_variant vs1" "parse_variant v"
            "map parse_variant vs2"] by simp
  from assms(1) show ?thesis
  proof
    assume "shape = VArray"
    with assms(3) drop show ?thesis
      by (auto simp: update_checks_array dest: validate_variants_drop)
  next
    assume "shape = VJson"
    with assms(3) drop show ?thesis
      by (auto simp: update_checks_json)
  qed
qed

lemma update_ignores_variants:
  "update_variants L fresh (rq\<lparr>u_variants := X\<rparr>) product w vs = update_variants L fresh rq product w vs"
  "update_slug pid (rq\<lparr>u_variants := X\<rparr>) product w = update_slug pid rq product w"
  "update_txn L faults pid (rq\<lparr>u_variants := X\<rparr>) product slug uv tags specs colls w
     = update_txn L faults pid rq product slug uv tags specs colls w"
  by (simp_all add: update_variants_def update_slug_def update_txn_def update_data_def
        update_category_counts_def update_document_def category_changed_def Let_def)

lemma update_variants_cong:
  "merge_variants L fresh (map (to_object (colors w)) (p_variants product)) a
     = merge_variants L fresh (map (to_object (colors w)) (p_variants product)) b
   \<Longrightarrow> update_variants L fresh rq product w a = update_variants L fresh rq product w b"
  by (simp add: update_variants_def)

text \<open>
  C10, as the code has it. An incoming variant whose \<^verbatim>\<open>_id\<close> is a well-formed
  object id that no variant of the product has is dropped by the merge: the merged list
  is the one the other incoming variants give, so it is neither patched in nor appended.
  If the request is not rejected by the checks that precede the merge, which read the
  colour of that variant too, the update has the outcome, response and state, of the
  same request without that variant. The colour documents have distinct ids.
\<close>

theorem unmatched_variant_discarded:
  assumes "shape = VArray \<or> shape = VJson"
    and "castObjectId L (Str pid) = Some kp" and "find_product kp (products w) = Some product"
    and "in_id v = Some k" and "k \<noteq> []" and "isValidObjectId L (Str k)"
    and "k \<notin> v_id ` set (p_variants product)"
    and "distinct (map col_id (colors w))"
    and "update_checks L w product (shape (vs1 @ v # vs2)) = Inr parsed"
  shows "merge_variants L fresh (map (to_object (colors w)) (p_variants product)) parsed
           = merge_variants L fresh (map (to_object (colors w)) (p_variants product))
               (map parse_variant (vs1 @ vs2))
     \<and> updateProduct L faults fresh pid (rq\<lparr>u_variants := shape (vs1 @ v # vs2)\<rparr>) w
         = updateProduct L faults fresh pid (rq\<lparr>u_variants := shape (vs1 @ vs2)\<rparr>) w"
proof -
  let ?existing = "map (to_object (colors w)) (p_variants product)"
  from update_checks_drop[OF assms(1,8,9)]
  have parsed: "parsed = map parse_variant (vs1 @ v # vs2)"
    and without: "update_checks L w product (shape (vs1 @ vs2)) = Inr (map parse_variant (vs1 @ vs2))"
    by auto
  have ids: "mv_id ` set ?existing = v_id ` set (p_variants product)"
    by (auto simp: to_object_def image_iff)
  have merge: "merge_variants L fresh ?existing parsed
      = merge_variants L fresh ?existing (map parse_variant (vs1 @ vs2))"
    unfolding parsed
    using merge_variants_unmatched[of "parse_variant v" L ?existing fresh
            "map parse_variant vs1" "map parse_variant vs2"] assms(4,5,6,7) ids
    by (simp add: truthy_def)
  have "updateProduct L faults fresh pid (rq\<lparr>u_variants := shape (vs1 @ v # vs2)\<rparr>) w
         = updateProduct L faults fresh pid (rq\<lparr>u_variants := shape (vs1 @ vs2)\<rparr>) w"
    using assms(2,3,9) without update_variants_cong[OF merge, of rq]
    by (simp add: updateProduct_def update_ignores_variants split: sum.split prod.split)
  with merge show ?thesis by simp
qed

theorem unmatched_variant_discarded_witness:
  "castObjectId sample_lib (Str shirt_id) = Some shirt_id
   \<and> find_product shirt_id (products sample_world) = Some sample_product
   \<and> in_id stray = Some unknown_id \<and> isValidObjectId sample_lib (Str unknown_id)
   \<and> unknown_id \<notin> v_id ` set (p_variants sample_product)
   \<and> distinct (map col_id (colors sample_world))
   \<and> update_checks sample_lib sample_world sample_product (VArray [first_variant, stray])
       = Inr [first_variant, stray]
   \<and> updateProduct sample_lib {} sample_fresh shirt_id
        (recolour\<lparr>u_variants := VArray [first_variant, stray]\<rparr>) sample_world
       = (Responded OK ''PRODUCT_MESSAGES.PRODUCT_UPDATED'', recoloured_world)"
  using unmatched_variant_discarded
          [of VArray sample_lib shirt_id shirt_id sample_world sample_product stray unknown_id
              "[first_variant]" "[]" "[first_variant, stray]" sample_fresh "{}" recolour]
        recolour_commits
  by (simp add: update_checks_array update_color_ids_def checked_colors_def parse_variant_def
        isValidObjectId_def sample_defs store_defs)

text \<open>
  The claim as stated fails when the dropped variant names a colour that does not
  exist: the request is answered 400, while it succeeds without that variant.
\<close>

theorem unmatched_variant_discarded_counterexample:
  "in_id ghost = Some unknown_id \<and> isValidObjectId sample_lib (Str unknown_id)
   \<and> unknown_id \<notin> v_id ` set (p_variants sample_product)
   \<and> updateProduct sample_lib {} sample_fresh shirt_id
        (recolour\<lparr>u_variants := VArray [first_variant, ghost]\<rparr>) sample_world
       = (Responded BAD_REQUEST ''One or more colors do not exist'', sample_world)
   \<and> updateProduct sample_lib {} sample_fresh shirt_id
        (recolour\<lparr>u_variants := VArray [first_variant]\<rparr>) sample_world
       = (Responded OK ''PRODUCT_MESSAGES.PRODUCT_UPDATED'', recoloured_world)"
  by (simp add: update_eval and_then_reject_if sample_defs store_defs txn_defs
        del: set_filter set_map)

section \<open>Properties of product deletion\<close>

lemma delete_unit_leaves:
  "view (outside t) = x \<Longrightarrow> leaves view x (delete_unit L stmt faults pid product t)"
  unfolding delete_unit_def Let_def
  by (auto intro!: leaves_and_then leaves_store_call leaves_throw_if leaves_cast_id
        leaves_cast_ids split: sum.split)

lemma delete_unit_stops: "delete_unit L evaluate_Image faults pid product t \<noteq> Inr t'"
  by (auto simp: delete_unit_def evaluate_Image_def Let_def and_then_eq_Inr)

lemma remove_images_leaves:
  "leaves (\<lambda>w. (products w, categories w, colors w))
     (products (outside t), categories (outside t), colors (outside t)) (remove_images product t)"
  by (simp add: remove_images_def perform_def split: sum.split)

lemma delete_try_leaves:
  "leaves (\<lambda>w. (products w, categories w, colors w)) (products w, categories w, colors w)
     (and_then (remove_images product (startTransaction w))
        (delete_unit L stmt faults pid product))"
  using remove_images_leaves[of "startTransaction w" product]
  by (auto intro!: leaves_and_then delete_unit_leaves simp: startTransaction_def)

lemma delete_try_stops:
  "and_then (remove_images product t) (delete_unit L evaluate_Image faults pid product) \<noteq> Inr t'"
  by (auto simp: and_then_eq_Inr delete_unit_stops)

text \<open>
  Whatever the request, the state and the faults, \<^verbatim>\<open>deleteProduct\<close> never answers 200
  and never changes a document.
\<close>

lemma deleteProduct_changes_no_document:
  "products (snd (deleteProduct L faults pid w)) = products w
   \<and> categories (snd (deleteProduct L faults pid w)) = categories w
   \<and> colors (snd (deleteProduct L faults pid w)) = colors w
   \<and> (\<forall>msg. fst (deleteProduct L faults pid w) \<noteq> Responded OK msg)"
proof (cases "castObjectId L (Str pid)")
  case None
  then show ?thesis by (simp add: deleteProduct_def)
next
  case (Some k)
  show ?thesis
  proof (cases "find_product k (products w)")
    case None
    with Some show ?thesis by (simp add: deleteProduct_def)
  next
    case found: (Some product)
    let ?r = "and_then (remove_images product (startTransaction w))
                (delete_unit L evaluate_Image faults pid product)"
    show ?thesis
    proof (cases ?r)
      case (Inl e)
      obtain msg t where e: "e = (msg, t)" by (cases e)
      from delete_try_leaves[of w product L evaluate_Image faults pid] Inl e
      have "products (outside t) = products w \<and> categories (outside t) = categories w
          \<and> colors (outside t) = colors w"
        by simp
      with Some found Inl e show ?thesis
        by (simp add: deleteProduct_def abortTransaction_def)
    next
      case (Inr t)
      with delete_try_stops show ?thesis by blast
    qed
  qed
qed

text \<open>A file that cannot be removed stops the deletion; a missing file is skipped.\<close>

lemma deleteProduct_unlink_failure:
  "castObjectId L (Str pid) = Some k \<Longrightarrow> find_product k (products w) = Some product
     \<Longrightarrow> unlink_images (uploads_dir w) (concat (map v_images (p_variants product))) (uploads w)
           = Inl fs
     \<Longrightarrow> deleteProduct L faults pid w = (Thrown ''unlinkSync'', w\<lparr>uploads := fs\<rparr>)"
  by (simp add: deleteProduct_def remove_images_def txn_defs)

lemma unlink_images_missing:
  "basename (img_url img) \<notin> {[], ''.'', ''..''} \<Longrightarrow> map_of fs (basename (img_url img)) = None
     \<Longrightarrow> unlink_images dir (img # imgs) fs = unlink_images dir imgs fs"
  by (simp add: Let_def)

text \<open>An image whose url has no file name makes the loop unlink the directory itself.\<close>

lemma unlink_images_directory:
  "basename (img_url img) = [] \<Longrightarrow> unlink_images True (img # imgs) fs = Inl fs"
  by simp

text \<open>
  C2. Deleting a product is to take one off the counter of its category and off the
  counter of each distinct colour of its variants. \<^verbatim>\<open>deleteProduct\<close> does not get
  there: on the sample product, with no store call failing, it throws at the stray
  \<^verbatim>\<open>Image\<close> statement, the transaction is aborted, and the product and both counters
  are what they were.
\<close>

theorem delete_sample_product_fails:
  "find_product shirt_id (products sample_world) = Some sample_product
   \<and> deleteProduct sample_lib {} shirt_id sample_world
       = (Thrown ''ReferenceError: Image is not defined'', sample_world)
   \<and> category_count shirts_id (categories sample_world) = Some 3
   \<and> color_count red_id (colors sample_world) = Some 2"
  by (simp add: deleteProduct_def remove_images_def delete_unit_def evaluate_Image_def
        basename_def variant_color_ids_def Let_def and_then_reject_if sample_defs store_defs
        txn_defs)

text \<open>
  C6. The image files are removed inside \<^verbatim>\<open>try\<close>, before the counters are touched,
  and \<^verbatim>\<open>fs.unlinkSync\<close> is not guarded: when the file of the sample product's image
  is there and cannot be removed, the exception aborts the deletion, and the product is
  still in the collection.
\<close>

theorem delete_blocked_by_asset:
  "deleteProduct sample_lib {} shirt_id (sample_world\<lparr>uploads := [(''shirt.png'', False)]\<rparr>)
     = (Thrown ''unlinkSync'', sample_world\<lparr>uploads := [(''shirt.png'', False)]\<rparr>)
   \<and> find_product shirt_id (products (sample_world\<lparr>uploads := [(''shirt.png'', False)]\<rparr>))
       = Some sample_product"
  by (simp add: deleteProduct_def remove_images_def basename_def Let_def sample_defs store_defs
        txn_defs)

text \<open>
  The statements around the stray one do what a deletion is to do: if the unit goes
  through with that statement passing, then in the session, which is what a commit makes
  the state, the product is gone, the counter of its category is one less, and so is
  the counter of each colour of its variants, once, however many variants have the
  colour; the other colours keep their counters. (The string of an object id is cast
  back to that id.)
\<close>

lemma color_count_inc:
  "color_count k (colors_inc ks d cs)
     = (if k \<in> set ks then map_option (\<lambda>n. n + d) (color_count k cs) else color_count k cs)"
  by (induction cs) (auto simp: color_count_def find_color_def colors_inc_def)

lemma cast_ids_round_trip:
  "\<forall>c\<in>set ss. castObjectId L (Str c) = Some c \<Longrightarrow> cast_ids L ss e = Inr ss"
  by (auto simp: cast_ids_def isValidObjectId_def list_all_iff intro: map_idI)

lemma delete_unit_counts:
  assumes "delete_unit L (Inr ()) faults pid product t = Inr t'"
    and "castObjectId L (Str pid) = Some k"
    and "\<forall>c\<in>set (variant_color_ids (p_variants product)). castObjectId L (Str c) = Some c"
  shows "products (inside t') = delete_product k (products (inside t))
     \<and> category_count (p_category product) (categories (inside t'))
         = map_option (\<lambda>n. n - 1) (category_count (p_category product) (categories (inside t)))
     \<and> color_count c (colors (inside t'))
         = (if c \<in> set (variant_color_ids (p_variants product))
            then map_option (\<lambda>n. n - 1) (color_count c (colors (inside t)))
            else color_count c (colors (inside t)))"
proof -
  let ?ids = "uniq (variant_color_ids (p_variants product))"
  have ids: "set ?ids = set (variant_color_ids (p_variants product))"
    by (simp add: uniq_def)
  with assms(3) have cast: "\<And>e. cast_ids L ?ids e = Inr ?ids"
    by (intro cast_ids_round_trip) simp
  from assms(1,2) have "inside t' = (inside t)\<lparr>categories := category_inc (p_category product) (- 1) (categories (inside t)),
      colors := (if ?ids \<noteq> [] then colors_inc ?ids (- 1) (colors (inside t)) else colors (inside t)),
      products := delete_product k (products (inside t))\<rparr>"
    by (auto simp: delete_unit_def Let_def and_then_eq_Inr cast store_call_def throw_if_def
          perform_def split: if_splits)
  then show ?thesis using ids
    by (auto simp: category_count_inc color_count_inc)
qed

section \<open>Properties of the customer queries\<close>

text \<open>
  What the two availability conditions select: \<^verbatim>\<open>{ $gt: 0 }\<close> the products with
  stock, \<^verbatim>\<open>{ $lte: 0 }\<close> the products in which some size of some variant has a
  quantity of zero or less.
\<close>

lemma sat_quantity_stock: "sat_quantity (QuantityGt 0) p \<longleftrightarrow> has_stock p"
  by (auto simp: has_stock_def all_quantities_def list_ex_iff)

lemma sat_quantity_lte: 
  "sat_quantity (QuantityLte 0) p
     \<longleftrightarrow> list_ex (\<lambda>v. list_ex (\<lambda>e. sz_quantity e \<le> 0) (v_sizes v)) (p_variants p)"
  by (auto simp: all_quantities_def list_ex_iff)

lemmas filter_eval =
  filterCustomerProducts_def filter_build_def page_window_def category_filter_def size_filter_def
  colors_filter_def brands_filter_def collections_filter_def tags_filter_def price_filter_def
  availability_filter_def soldout_filter_def int_or_def price_bound_def text_of_def sort_spec_def
  empty_query_def matches_def holds_def all_quantities_def has_stock_def
  toLowerCase_def lower_char_def is_upper_def Let_def

lemmas list_eval =
  getCustomerProducts_def list_build_def category_filter_def search_filter_def
  list_price_filter_def list_tags_filter_def list_colors_filter_def list_brands_filter_def
  list_collections_filter_def list_size_filter_def store_rejects_def int_or_def price_bound_def
  text_of_def sort_spec_def empty_query_def matches_def holds_def toLowerCase_def lower_char_def
  is_upper_def Let_def

text \<open>
  C3. With the availability flag false the filter is to select the products in which
  no size of any variant has a positive quantity. The query built for
  \<^verbatim>\<open>available=false\<close> selects the sample product, which the message calls
  unavailable, although its first size has quantity 5.
\<close>

theorem unavailable_filter_selects_stock:
  "filterCustomerProducts sample_lib (sample_filter\<lparr>f_available := Some (Str ''false'')\<rparr>)
     sample_world
     = (Responded OK ''PRODUCT_MESSAGES.PRODUCTS_FETCHED unavailable products'', [sample_product])
   \<and> has_stock sample_product"
  by (simp add: filter_eval and_then_reject_if sample_defs store_defs)

text \<open>
  Every step of the filter endpoint before the price block that stops the handler
  refuses the request.
\<close>

lemma text_of_refuses: "text_of v = Inl r \<Longrightarrow> refuses r"
  by (auto simp: text_of_def split: option.splits)

lemma parseFilterArray_refuses: "parseFilterArray field = Inl r \<Longrightarrow> refuses r"
  by (cases field rule: parseFilterArray.cases) (auto split: if_splits)

lemma int_or_refuses: "int_or L field dflt = Inl r \<Longrightarrow> refuses r"
  by (auto simp: int_or_def and_then_eq_Inl dest: text_of_refuses split: option.splits)

lemma page_window_refuses: "page_window L rq = Inl r \<Longrightarrow> refuses r"
  by (auto simp: page_window_def and_then_eq_Inl reject_if_eq_Inl dest: int_or_refuses)

lemma category_filter_refuses: "category_filter L rq w qm = Inl r \<Longrightarrow> refuses r"
  by (auto simp: category_filter_def Let_def split: if_splits option.splits jsval.splits)

lemma size_filter_refuses: "size_filter rq qm = Inl r \<Longrightarrow> refuses r"
  by (auto simp: size_filter_def and_then_eq_Inl
        dest: parseFilterArray_refuses text_of_refuses split: if_splits)

lemma colors_filter_refuses: "colors_filter L rq qm = Inl r \<Longrightarrow> refuses r"
  by (auto simp: colors_filter_def and_then_eq_Inl
        dest: parseFilterArray_refuses text_of_refuses split: if_splits)

lemma brands_filter_refuses: "brands_filter L rq qm = Inl r \<Longrightarrow> refuses r"
  by (auto simp: brands_filter_def and_then_eq_Inl
        dest: parseFilterArray_refuses text_of_refuses split: if_splits)

lemma collections_filter_refuses: "collections_filter rq qm = Inl r \<Longrightarrow> refuses r"
  by (auto simp: collections_filter_def and_then_eq_Inl
        dest: parseFilterArray_refuses text_of_refuses split: if_splits)

lemma tags_filter_refuses: "tags_filter rq qm = Inl r \<Longrightarrow> refuses r"
  by (auto simp: tags_filter_def and_then_eq_Inl
        dest: parseFilterArray_refuses text_of_refuses split: if_splits)

lemma price_bound_truthy: "price_bound L field = Inr (Some a) \<Longrightarrow> js_truthy field"
  by (auto simp: price_bound_def split: if_splits)

text \<open>The price block answers 400 when the bounds are out of order.\<close>

lemma price_filter_rejects:
  "bad_range L rq \<Longrightarrow> \<exists>msg. price_filter L rq qm = Inl (Responded BAD_REQUEST msg)"
  unfolding bad_range_def
  by (elim disjE exE conjE)
     (auto simp: price_filter_def and_then_reject_if dest: price_bound_truthy split: option.splits)

lemma and_then_refuses:
  assumes "\<And>r. m = Inl r \<Longrightarrow> refuses r"
    and "\<And>x. m = Inr x \<Longrightarrow> \<exists>r. f x = Inl r \<and> refuses r"
  shows "\<exists>r. and_then m f = Inl r \<and> refuses r"
  using assms by (cases m) auto

lemma price_filter_stops:
  "bad_range L rq \<Longrightarrow> \<exists>r. and_then (price_filter L rq qm) f = Inl r \<and> refuses r"
  using price_filter_rejects[of L rq qm] by auto

text \<open>
  \<^verbatim>\<open>filterCustomerProducts\<close> has the check: whenever the price bounds of a request
  are out of order it refuses the request and selects nothing, with a 400 unless an
  earlier block threw; the bounds are neither swapped nor dropped.
\<close>

lemma filter_rejects_bad_price_range:
  assumes "bad_range L rq"
  shows "\<exists>r. filterCustomerProducts L rq w = (r, []) \<and> refuses r"
proof -
  have "\<exists>r. filter_build L rq w = Inl r \<and> refuses r"
    unfolding filter_build_def
    apply (rule and_then_refuses, erule page_window_refuses)
    apply (rule and_then_refuses, erule category_filter_refuses)
    apply (rule and_then_refuses, erule size_filter_refuses)
    apply (rule and_then_refuses, erule colors_filter_refuses)
    apply (rule and_then_refuses, erule brands_filter_refuses)
    apply (rule and_then_refuses, erule collections_filter_refuses)
    apply (rule and_then_refuses, erule tags_filter_refuses)
    apply (rule price_filter_stops[OF assms])
    done
  then show ?thesis by (auto simp: filterCustomerProducts_def)
qed

lemma filter_rejects_sample_ranges:
  "filterCustomerProducts sample_lib
        (sample_filter\<lparr>f_minPrice := Some (Str ''50''), f_maxPrice := Some (Str ''10'')\<rparr>)
        sample_world
       = (Responded BAD_REQUEST ''Minimum price cannot be greater than maximum price'', [])
   \<and> filterCustomerProducts sample_lib (sample_filter\<lparr>f_minPrice := Some (Str ''-5'')\<rparr>)
        sample_world
       = (Responded BAD_REQUEST ''Minimum price cannot be negative'', [])"
  by (simp add: filter_eval and_then_reject_if sample_defs store_defs)

text \<open>
  A repeated \<^verbatim>\<open>category\<close> parameter makes the filter endpoint throw before it
  gets to the prices.
\<close>

lemma filter_repeated_category_throws:
  "filterCustomerProducts sample_lib
        (sample_filter\<lparr>f_category := Some (Arr [Str ''shirts'', Str ''hats'']),
                         f_minPrice := Some (Str ''50''), f_maxPrice := Some (Str ''10'')\<rparr>)
        sample_world
       = (Thrown ''TypeError'', [])"
  by (simp add: filter_eval and_then_reject_if sample_defs store_defs)

text \<open>
  C4. A request whose minimum price exceeds its maximum is to be rejected with a 400,
  by both query builders. \<^verbatim>\<open>getCustomerProducts\<close> has no such check: with a minimum
  of 50 and a maximum of 10 it puts both bounds into its query, runs it and answers
  200.
\<close>

theorem listing_runs_bad_price_range:
  "bad_range sample_lib
     (sample_filter\<lparr>f_minPrice := Some (Str ''50''), f_maxPrice := Some (Str ''10'')\<rparr>)
   \<and> getCustomerProducts sample_lib
        (sample_filter\<lparr>f_minPrice := Some (Str ''50''), f_maxPrice := Some (Str ''10'')\<rparr>)
        sample_world
       = (Responded OK ''PRODUCT_MESSAGES.PRODUCTS_FETCHED with price >= 50 with price <= 10'', [])
   \<and> map_sum id (\<lambda>b. q_base_price (b_query b))
        (list_build sample_lib
           (sample_filter\<lparr>f_minPrice := Some (Str ''50''), f_maxPrice := Some (Str ''10'')\<rparr>)
           sample_world)
       = Inr (Some \<lparr>pr_gte = Some 50, pr_lte = Some 10\<rparr>)"
  by (simp add: bad_range_def list_eval and_then_reject_if sample_defs store_defs)

end
